theory Spec2Isabelle
  imports Complex_Main "HOL-Library.Word" "HOL-Library.AList"
begin

unbundle bit_operations_syntax

section \<open>Values\<close>

text \<open>
  The webhook module of the package (the TypeScript that the tests import as
  \<^verbatim>\<open>src/index\<close>) works on untyped decoded JSON (\<^verbatim>\<open>payload: unknown\<close>). A
  JavaScript string is the list of its UTF-16 code units, and \<open>js ''abc''\<close> is the string
  of a literal; a number is its rational value (both zeros are \<open>0\<close>), or one of the two
  kinds of non-finite value. An object is an association list read with \<open>map_of\<close>.
\<close>

type_synonym byte = "8 word"

type_synonym jschar = "16 word"

type_synonym jsstring = "jschar list"

definition js :: "string \<Rightarrow> jsstring" where
  "js s = map of_char s"

datatype number = Finite rat | Infinite | NaN

datatype json =
    JUndefined
  | JNull
  | JBool bool
  | JNum number
  | JStr jsstring
  | JArr "json list"
  | JObj "(jsstring \<times> json) list"

datatype error =
    Error string
  | TypeError
  | RangeError
  | SyntaxError

text \<open>JavaScript's ToBoolean: what \<^verbatim>\<open>!x\<close>, \<^verbatim>\<open>x && y\<close> and \<^verbatim>\<open>Boolean(x)\<close> test.\<close>

fun truthy :: "json \<Rightarrow> bool" where
  "truthy JUndefined = False"
| "truthy JNull = False"
| "truthy (JBool b) = b"
| "truthy (JNum (Finite q)) = (q \<noteq> 0)"
| "truthy (JNum Infinite) = True"
| "truthy (JNum NaN) = False"
| "truthy (JStr s) = (s \<noteq> [])"
| "truthy (JArr xs) = True"
| "truthy (JObj kvs) = True"

text \<open>\<^verbatim>\<open>typeof x === "string"\<close>.\<close>

fun is_string :: "json \<Rightarrow> bool" where
  "is_string (JStr s) = True"
| "is_string v = False"

text \<open>
  A property read \<^verbatim>\<open>x[k]\<close> or \<^verbatim>\<open>x.k\<close>. It throws a TypeError on
  \<^verbatim>\<open>undefined\<close> and \<^verbatim>\<open>null\<close>; an object gives the value stored under the key,
  or \<^verbatim>\<open>undefined\<close>. The names this program reads (\<^verbatim>\<open>event_type\<close>,
  \<^verbatim>\<open>form_id\<close>, \<^verbatim>\<open>events\<close>, \<^verbatim>\<open>original_message\<close>, \<^verbatim>\<open>bounce\<close>,
  \<^verbatim>\<open>status\<close>, \<^verbatim>\<open>message\<close>, \<^verbatim>\<open>rcpt_to\<close>, \<^verbatim>\<open>message_id\<close>,
  \<^verbatim>\<open>to\<close>, \<^verbatim>\<open>tag\<close>) are no properties of a boolean, a number, a string or an
  array, where the read gives \<^verbatim>\<open>undefined\<close>.
\<close>

fun member :: "json \<Rightarrow> jsstring \<Rightarrow> error + json" where
  "member JUndefined k = Inl TypeError"
| "member JNull k = Inl TypeError"
| "member (JObj kvs) k = Inr (case map_of kvs k of None \<Rightarrow> JUndefined | Some v \<Rightarrow> v)"
| "member v k = Inr JUndefined"

text \<open>Optional chaining \<^verbatim>\<open>x?.k\<close>: \<^verbatim>\<open>undefined\<close> where \<^verbatim>\<open>x\<close> is nullish.\<close>

fun opt_member :: "json \<Rightarrow> jsstring \<Rightarrow> error + json" where
  "opt_member JUndefined k = Inr JUndefined"
| "opt_member JNull k = Inr JUndefined"
| "opt_member v k = member v k"

text \<open>Nullish coalescing \<^verbatim>\<open>x ?? d\<close>.\<close>

fun nullish :: "json \<Rightarrow> json \<Rightarrow> json" where
  "nullish JUndefined d = d"
| "nullish JNull d = d"
| "nullish v d = v"

text \<open>Sequencing of evaluations that may throw: the first error ends the evaluation.\<close>

definition and_then :: "error + 'a \<Rightarrow> ('a \<Rightarrow> error + 'b) \<Rightarrow> error + 'b" where
  "and_then r f = (case r of Inl e \<Rightarrow> Inl e | Inr v \<Rightarrow> f v)"

section \<open>Campaign tags\<close>

text \<open>\<^verbatim>\<open>s.split(c)\<close> for a separator of one character; the result is never empty.\<close>

fun split :: "'a \<Rightarrow> 'a list \<Rightarrow> 'a list list" where
  "split sep [] = [[]]"
| "split sep (c # cs) =
     (if c = sep then [] # split sep cs
      else (case split sep cs of [] \<Rightarrow> [[c]] | p # ps \<Rightarrow> (c # p) # ps))"

text \<open>The code unit of the colon.\<close>

definition colon :: jschar where
  "colon = of_char CHR '':''"

text \<open>\<^verbatim>\<open>s.startsWith(p)\<close>.\<close>

definition startsWith :: "jsstring \<Rightarrow> jsstring \<Rightarrow> bool" where
  "startsWith s p = (take (length p) s = p)"

text \<open>An array read \<^verbatim>\<open>xs[i]\<close>: \<^verbatim>\<open>undefined\<close> out of range.\<close>

definition at_index :: "jsstring list \<Rightarrow> nat \<Rightarrow> json" where
  "at_index xs i = (if i < length xs then JStr (xs ! i) else JUndefined)"

text \<open>
  \<^verbatim>\<open>
  function extractCampaignId(tag?: string): string | null {
    if (!tag || typeof tag !== "string") { return null; }
    if (tag.startsWith("campaign:")) { return tag.split(":")[1] ?? null; }
    return null;
  }
  \<close>
\<close>

definition extractCampaignId :: "json \<Rightarrow> json" where
  "extractCampaignId tag =
     (if \<not> truthy tag \<or> \<not> is_string tag then JNull
      else (case tag of
              JStr s \<Rightarrow>
                if startsWith s (js ''campaign:'') then nullish (at_index (split colon s) 1) JNull
                else JNull
            | _ \<Rightarrow> JNull))"

section \<open>Payload guards\<close>

text \<open>\<^verbatim>\<open>Boolean(payload && payload.a && payload.b)\<close>, with the short circuit of \<^verbatim>\<open>&&\<close>.\<close>

definition has_both :: "json \<Rightarrow> jsstring \<Rightarrow> jsstring \<Rightarrow> error + bool" where
  "has_both payload a b =
     (if \<not> truthy payload then Inr False
      else and_then (member payload a) (\<lambda>x.
        if \<not> truthy x then Inr False
        else and_then (member payload b) (\<lambda>y. Inr (truthy y))))"

definition isMailWebhookPayload :: "json \<Rightarrow> error + bool" where
  "isMailWebhookPayload v = has_both v (js ''message_id'') (js ''rcpt_to'')"

definition isStatusPayload :: "json \<Rightarrow> error + bool" where
  "isStatusPayload v = has_both v (js ''status'') (js ''message'')"

definition isBouncePayload :: "json \<Rightarrow> error + bool" where
  "isBouncePayload v = has_both v (js ''original_message'') (js ''bounce'')"

section \<open>The classifier\<close>

datatype VenmailWebhookKind = Integration | Mail | Status | Bounce | Form | Unknown

text \<open>An optional field of the result that is not set is \<open>None\<close>.\<close>

record VenmailWebhookInspection =
  kind :: VenmailWebhookKind
  isCampaignEvent :: "bool option"
  campaignId :: "json option"

definition only_kind :: "VenmailWebhookKind \<Rightarrow> VenmailWebhookInspection" where
  "only_kind k = \<lparr>kind = k, isCampaignEvent = None, campaignId = None\<rparr>"

definition campaign_kind :: "VenmailWebhookKind \<Rightarrow> json \<Rightarrow> VenmailWebhookInspection" where
  "campaign_kind k c = \<lparr>kind = k, isCampaignEvent = Some (truthy c), campaignId = Some c\<rparr>"

text \<open>\<^verbatim>\<open>data[a] && data[b]\<close> as the condition of an \<^verbatim>\<open>if\<close>.\<close>

definition both_truthy :: "json \<Rightarrow> jsstring \<Rightarrow> jsstring \<Rightarrow> error + bool" where
  "both_truthy data a b =
     and_then (member data a) (\<lambda>x.
       if \<not> truthy x then Inr False
       else and_then (member data b) (\<lambda>y. Inr (truthy y)))"

definition detectVenmailWebhookKind :: "json \<Rightarrow> error + VenmailWebhookInspection" where
  "detectVenmailWebhookKind data =
     (if \<not> truthy data then Inr (only_kind Unknown)
      else and_then (member data (js ''event_type'')) (\<lambda>et.
        if is_string et then Inr (only_kind Integration)
        else and_then (both_truthy data (js ''form_id'') (js ''events'')) (\<lambda>is_form.
          if is_form then Inr (only_kind Form)
          else and_then (both_truthy data (js ''original_message'') (js ''bounce'')) (\<lambda>is_bounce.
            if is_bounce then
              and_then (member data (js ''original_message'')) (\<lambda>om.
              and_then (opt_member om (js ''tag'')) (\<lambda>tag.
                Inr (campaign_kind Bounce (extractCampaignId tag))))
            else and_then (both_truthy data (js ''status'') (js ''message'')) (\<lambda>is_status.
              if is_status then
                and_then (member data (js ''message'')) (\<lambda>m.
                and_then (opt_member m (js ''tag'')) (\<lambda>tag.
                  Inr (campaign_kind Status (extractCampaignId tag))))
              else and_then (both_truthy data (js ''rcpt_to'') (js ''message_id'')) (\<lambda>is_mail.
                if is_mail then Inr (only_kind Mail)
                else Inr (only_kind Unknown)))))))"

section \<open>The normalizer\<close>

record NormalizedDeliveryEvent =
  messageId :: json
  recipient :: json
  status :: json
  campaign :: json
  payload :: json

text \<open>
  The field \<open>campaign\<close> is the source's \<^verbatim>\<open>campaignId\<close> of the normalized event; an
  absent \<^verbatim>\<open>messageId\<close> or \<^verbatim>\<open>recipient\<close> is \<open>JUndefined\<close>.
\<close>

definition normalizeDeliveryEvent :: "json \<Rightarrow> error + NormalizedDeliveryEvent" where
  "normalizeDeliveryEvent p =
     and_then (isBouncePayload p) (\<lambda>is_bounce.
       if is_bounce then
         and_then (member p (js ''original_message'')) (\<lambda>message.
         and_then (opt_member message (js ''message_id'')) (\<lambda>mid.
         and_then (opt_member message (js ''to'')) (\<lambda>rcpt.
         and_then (opt_member message (js ''tag'')) (\<lambda>tag.
           Inr \<lparr>messageId = mid, recipient = rcpt, status = JStr (js ''MessageBounced''),
                campaign = extractCampaignId tag, payload = p\<rparr>))))
       else and_then (isStatusPayload p) (\<lambda>is_status.
         if is_status then
           and_then (member p (js ''message'')) (\<lambda>m.
           let message = nullish m (JObj []) in
           and_then (member message (js ''message_id'')) (\<lambda>mid.
           and_then (member message (js ''to'')) (\<lambda>rcpt.
           and_then (member p (js ''status'')) (\<lambda>st.
           and_then (member message (js ''tag'')) (\<lambda>tag.
             Inr \<lparr>messageId = mid, recipient = rcpt, status = st,
                  campaign = extractCampaignId tag, payload = p\<rparr>)))))
         else
           Inr \<lparr>messageId = JUndefined, recipient = JUndefined, status = JStr (js ''Unknown''),
                campaign = JNull, payload = p\<rparr>))"

section \<open>Signatures\<close>

text \<open>
  \<^verbatim>\<open>Buffer.from(s, "utf8")\<close>: the UTF-8 encoding of the code points of the string. A
  high surrogate with a low surrogate behind it is one code point; a surrogate that
  stands alone is written as U+FFFD.
\<close>

definition is_high :: "jschar \<Rightarrow> bool" where
  "is_high u = (0xD800 \<le> unat u \<and> unat u < 0xDC00)"

definition is_low :: "jschar \<Rightarrow> bool" where
  "is_low u = (0xDC00 \<le> unat u \<and> unat u < 0xE000)"

definition code_point :: "jschar \<Rightarrow> jschar \<Rightarrow> nat" where
  "code_point hi lo = 0x10000 + (unat hi - 0xD800) * 0x400 + (unat lo - 0xDC00)"

definition scalar :: "jschar \<Rightarrow> nat" where
  "scalar u = (if is_high u \<or> is_low u then 0xFFFD else unat u)"

definition utf8_bytes :: "nat \<Rightarrow> byte list" where
  "utf8_bytes n =
     (if n < 0x80 then [of_nat n]
      else if n < 0x800 then [of_nat (0xC0 + n div 0x40), of_nat (0x80 + n mod 0x40)]
      else if n < 0x10000 then
        [of_nat (0xE0 + n div 0x1000), of_nat (0x80 + n div 0x40 mod 0x40),
         of_nat (0x80 + n mod 0x40)]
      else
        [of_nat (0xF0 + n div 0x40000), of_nat (0x80 + n div 0x1000 mod 0x40),
         of_nat (0x80 + n div 0x40 mod 0x40), of_nat (0x80 + n mod 0x40)])"

fun utf8 :: "jsstring \<Rightarrow> byte list" where
  "utf8 [] = []"
| "utf8 [u] = utf8_bytes (scalar u)"
| "utf8 (u # v # us) =
     (if is_high u \<and> is_low v then utf8_bytes (code_point u v) @ utf8 us
      else utf8_bytes (scalar u) @ utf8 (v # us))"

text \<open>
  A SHA-256 digest: 32 bytes, read with \<open>digest_bytes\<close>. \<open>to_digest\<close> makes one of the
  first 32 bytes of a list, with zeros behind a shorter one.
\<close>

typedef sha256_digest = "{bs :: byte list. length bs = 32}"
  morphisms digest_bytes Digest
  by (rule exI [of _ "replicate 32 0"]) simp

definition to_digest :: "byte list \<Rightarrow> sha256_digest" where
  "to_digest bs = Digest (take 32 (bs @ replicate 32 0))"

text \<open>
  What the code takes from Node and this development does not define:
  \<^verbatim>\<open>crypto.createHmac("sha256", key).update(msg).digest()\<close>; the two directions of
  Node's base64 codec; \<^verbatim>\<open>JSON.stringify\<close>; and
  \<^verbatim>\<open>JSON.parse(raw.toString("utf8"))\<close>, which throws on malformed text.
\<close>

record platform =
  hmac_sha256 :: "byte list \<Rightarrow> byte list \<Rightarrow> sha256_digest"
  base64_encode :: "byte list \<Rightarrow> jsstring"
  base64_decode :: "jsstring \<Rightarrow> byte list"
  json_stringify :: "json \<Rightarrow> jsstring"
  json_parse :: "byte list \<Rightarrow> error + json"

text \<open>Node's hex encoding: two lowercase digits for each byte.\<close>

definition hex_digit :: "byte \<Rightarrow> jschar" where
  "hex_digit n = of_char (''0123456789abcdef'' ! unat n)"

definition hex_encode :: "byte list \<Rightarrow> jsstring" where
  "hex_encode bs = concat (map (\<lambda>b. [hex_digit (drop_bit 4 b), hex_digit (b AND 15)]) bs)"

text \<open>
  Node's hex decoding (\<^verbatim>\<open>Buffer.from(s, "hex")\<close>) never throws. It reads the string two
  code units at a time and of each unit the low byte only, so that U+0163 reads as
  \<^verbatim>\<open>c\<close>; it takes digits of either case, stops in front of the first pair with a byte
  that is no hex digit, and drops a last unit without a partner.
\<close>

definition unhex :: "byte \<Rightarrow> byte option" where
  "unhex b =
     (let n = unat b in
      if 48 \<le> n \<and> n \<le> 57 then Some (of_nat (n - 48))
      else if 97 \<le> n \<and> n \<le> 102 then Some (of_nat (n - 87))
      else if 65 \<le> n \<and> n \<le> 70 then Some (of_nat (n - 55))
      else None)"

definition low_byte :: "jschar \<Rightarrow> byte" where
  "low_byte u = ucast u"

fun hex_decode :: "jsstring \<Rightarrow> byte list" where
  "hex_decode (a # b # rest) =
     (case unhex (low_byte a) of
        None \<Rightarrow> []
      | Some hi \<Rightarrow>
          (case unhex (low_byte b) of
             None \<Rightarrow> []
           | Some lo \<Rightarrow> (push_bit 4 hi OR lo) # hex_decode rest))"
| "hex_decode s = []"

datatype encoding = Hex | Base64

text \<open>\<^verbatim>\<open>hmac.digest(encoding)\<close> and \<^verbatim>\<open>Buffer.from(s, encoding)\<close>.\<close>

fun digest :: "platform \<Rightarrow> encoding \<Rightarrow> sha256_digest \<Rightarrow> jsstring" where
  "digest pf Hex d = hex_encode (digest_bytes d)"
| "digest pf Base64 d = base64_encode pf (digest_bytes d)"

fun buffer_from :: "platform \<Rightarrow> jsstring \<Rightarrow> encoding \<Rightarrow> byte list" where
  "buffer_from pf s Hex = hex_decode s"
| "buffer_from pf s Base64 = base64_decode pf s"

text \<open>\<^verbatim>\<open>crypto.timingSafeEqual(a, b)\<close> throws a RangeError on buffers of two lengths.\<close>

definition timingSafeEqual :: "byte list \<Rightarrow> byte list \<Rightarrow> error + bool" where
  "timingSafeEqual a b = (if length a \<noteq> length b then Inl RangeError else Inr (a = b))"

text \<open>\<^verbatim>\<open>try { return e } catch { return false }\<close>.\<close>

definition or_false :: "error + bool \<Rightarrow> error + bool" where
  "or_false r = (case r of Inl e \<Rightarrow> Inr False | Inr b \<Rightarrow> Inr b)"

text \<open>\<^verbatim>\<open>rawBody: Buffer | string\<close>.\<close>

datatype raw_body = Buffer "byte list" | Text jsstring

fun body_bytes :: "raw_body \<Rightarrow> byte list" where
  "body_bytes (Buffer bs) = bs"
| "body_bytes (Text s) = utf8 s"

definition verifyVenmailSignature ::
  "platform \<Rightarrow> jsstring \<Rightarrow> jsstring \<Rightarrow> raw_body \<Rightarrow> encoding \<Rightarrow> error + bool" where
  "verifyVenmailSignature pf secret signature rawBody encoding =
     (if secret = [] then Inl (Error ''Venmail signature validation requires a secret'')
      else if signature = [] then Inr False
      else
        let computed = digest pf encoding (hmac_sha256 pf (utf8 secret) (body_bytes rawBody))
        in or_false (timingSafeEqual (buffer_from pf signature encoding)
                                     (buffer_from pf computed encoding)))"

text \<open>\<^verbatim>\<open>provided?: string | null\<close>: \<open>None\<close> is \<^verbatim>\<open>null\<close> or \<^verbatim>\<open>undefined\<close>.\<close>

definition verifySharedSecretHeader :: "jsstring \<Rightarrow> jsstring option \<Rightarrow> error + bool" where
  "verifySharedSecretHeader secret provided =
     (if secret = [] then Inl (Error ''Missing expected secret for header validation'')
      else (case provided of
              None \<Rightarrow> Inr False
            | Some p \<Rightarrow>
                if p = [] then Inr False
                else or_false (timingSafeEqual (utf8 secret) (utf8 p))))"

section \<open>The Express handler\<close>

text \<open>
  What the handler reads of the request: \<^verbatim>\<open>req.get(name)\<close>, \<^verbatim>\<open>req.body\<close> and
  \<^verbatim>\<open>req.rawBody\<close>, each of the two a buffer or any other value (\<open>JUndefined\<close> when
  absent).
\<close>

datatype body_value = Bytes "byte list" | Value json

record request =
  get :: "jsstring \<Rightarrow> jsstring option"
  body :: body_value
  rawBody :: body_value

text \<open>\<^verbatim>\<open>typeof v === "object"\<close> for a value that is truthy.\<close>

fun is_object :: "json \<Rightarrow> bool" where
  "is_object (JObj kvs) = True"
| "is_object (JArr xs) = True"
| "is_object v = False"

definition resolveRawBody :: "platform \<Rightarrow> request \<Rightarrow> byte list option \<Rightarrow> byte list" where
  "resolveRawBody pf req fallback =
     (case body req of
        Bytes b \<Rightarrow> b
      | Value bv \<Rightarrow>
          (case rawBody req of
             Bytes rb \<Rightarrow> rb
           | Value rv \<Rightarrow>
               (case bv of
                  JStr s \<Rightarrow> utf8 s
                | _ \<Rightarrow>
                    (case rv of
                       JStr s \<Rightarrow> utf8 s
                     | _ \<Rightarrow>
                         if truthy bv \<and> is_object bv then utf8 (json_stringify pf bv)
                         else (case fallback of Some f \<Rightarrow> f | None \<Rightarrow> utf8 (js ''{}''))))))"

text \<open>
  The response, as far as the handler writes and reads it:
  \<^verbatim>\<open>res.status(code).json(value)\<close> and \<^verbatim>\<open>res.headersSent\<close>.
\<close>

record response =
  statusCode :: nat
  sent :: "json option"
  headersSent :: bool

definition status_json :: "nat \<Rightarrow> json \<Rightarrow> response \<Rightarrow> response" where
  "status_json code v res = res\<lparr>statusCode := code, sent := Some v, headersSent := True\<rparr>"

text \<open>
  The caller's \<^verbatim>\<open>onEvent(event, req, res)\<close> gives the response as it leaves it, and
  the error it threw or rejected with, if any. \<open>None\<close> for \<open>onEvent\<close> is a value that is
  no function.
\<close>

type_synonym event_handler = "json \<Rightarrow> request \<Rightarrow> response \<Rightarrow> response \<times> error option"

record VenmailIntegrationWebhookOptions =
  secret :: jsstring
  onEvent :: "event_handler option"
  allowUnsigned :: bool
  signatureHeader :: jsstring
  eventHeader :: jsstring
  rawBodyExtractor :: "(request \<Rightarrow> error + byte list) option"
  autoRespond :: bool

definition DEFAULT_SIGNATURE_HEADER :: jsstring where
  "DEFAULT_SIGNATURE_HEADER = js ''x-venmail-signature''"

definition DEFAULT_EVENT_HEADER :: jsstring where
  "DEFAULT_EVENT_HEADER = js ''x-venmail-event''"

text \<open>
  One run of the handler: the response afterwards, the events \<^verbatim>\<open>onEvent\<close> was called
  with, in order, and the error given to \<^verbatim>\<open>next\<close>, if any.
\<close>

record outcome =
  response :: response
  delivered :: "json list"
  next_error :: "error option"

definition failed :: "response \<Rightarrow> error \<Rightarrow> outcome" where
  "failed res e = \<lparr>response = res, delivered = [], next_error = Some e\<rparr>"

definition raw_of :: "platform \<Rightarrow> VenmailIntegrationWebhookOptions \<Rightarrow> request \<Rightarrow> error + byte list" where
  "raw_of pf opts req =
     (case rawBodyExtractor opts of
        Some extract \<Rightarrow> extract req
      | None \<Rightarrow> Inr (resolveRawBody pf req None))"

definition providedSignature :: "VenmailIntegrationWebhookOptions \<Rightarrow> request \<Rightarrow> jsstring" where
  "providedSignature opts req = (case get req (signatureHeader opts) of None \<Rightarrow> [] | Some s \<Rightarrow> s)"

definition invalid_signature :: json where
  "invalid_signature =
     JObj [(js ''ok'', JBool False), (js ''error'', JStr (js ''Invalid Venmail signature''))]"

text \<open>
  The own enumerable properties \<^verbatim>\<open>{...v}\<close> copies: those of an object, the indexed
  elements of an array and the indexed code units of a string. An index is written in
  decimal.
\<close>

function digits :: "nat \<Rightarrow> string" where
  "digits n =
     (if n < 10 then [''0123456789'' ! n]
      else digits (n div 10) @ [''0123456789'' ! (n mod 10)])"
  by pat_completeness auto
termination
  by (relation "measure id") auto

declare digits.simps [simp del]

fun spread :: "json \<Rightarrow> (jsstring \<times> json) list" where
  "spread (JObj kvs) = kvs"
| "spread (JArr xs) = map (\<lambda>i. (js (digits i), xs ! i)) [0..<length xs]"
| "spread (JStr s) = map (\<lambda>i. (js (digits i), JStr [s ! i])) [0..<length s]"
| "spread v = []"

definition enrich :: "VenmailIntegrationWebhookOptions \<Rightarrow> request \<Rightarrow> json \<Rightarrow> error + json" where
  "enrich opts req parsed =
     (let copied = spread parsed in
      and_then
        (case get req (eventHeader opts) of
           Some h \<Rightarrow> Inr (JStr h)
         | None \<Rightarrow> and_then (member parsed (js ''event_type'')) (\<lambda>et. Inr (nullish et (JStr []))))
        (\<lambda>ev. Inr (JObj (AList.update (js ''headers'')
                (JObj [(js ''x-venmail-event'', ev),
                       (js ''x-venmail-signature'', JStr (providedSignature opts req))])
                copied))))"

text \<open>
  The steps of the handler behind the signature check: decode the body, build the event,
  call \<^verbatim>\<open>onEvent\<close> and await it, answer 200 if nothing was sent.
\<close>

definition deliver ::
  "platform \<Rightarrow> VenmailIntegrationWebhookOptions \<Rightarrow> event_handler \<Rightarrow> request \<Rightarrow> response \<Rightarrow>
   byte list \<Rightarrow> outcome" where
  "deliver pf opts on_event req res raw =
     (case and_then (json_parse pf raw) (enrich opts req) of
        Inl e \<Rightarrow> failed res e
      | Inr enriched \<Rightarrow>
          (case on_event enriched req res of
             (res', Some e) \<Rightarrow>
               \<lparr>response = res', delivered = [enriched], next_error = Some e\<rparr>
           | (res', None) \<Rightarrow>
               \<lparr>response =
                  (if autoRespond opts \<and> \<not> headersSent res'
                   then status_json 200 (JObj [(js ''ok'', JBool True)]) res'
                   else res'),
                delivered = [enriched], next_error = None\<rparr>))"

text \<open>
  The function \<^verbatim>\<open>async (req, res, next) => { try { ... } catch (error) { next(error) } }\<close>
  that \<^verbatim>\<open>venmailIntegrationWebhook\<close> returns.
\<close>

definition handle ::
  "platform \<Rightarrow> VenmailIntegrationWebhookOptions \<Rightarrow> event_handler \<Rightarrow> request \<Rightarrow> response \<Rightarrow> outcome" where
  "handle pf opts on_event req res =
     (case raw_of pf opts req of
        Inl e \<Rightarrow> failed res e
      | Inr raw \<Rightarrow>
          (case (if allowUnsigned opts then Inr True
                 else verifyVenmailSignature pf (secret opts) (providedSignature opts req)
                        (Buffer raw) Hex) of
             Inl e \<Rightarrow> failed res e
           | Inr isValid \<Rightarrow>
               if \<not> isValid then
                 \<lparr>response = status_json 401 invalid_signature res, delivered = [],
                  next_error = None\<rparr>
               else deliver pf opts on_event req res raw))"

definition venmailIntegrationWebhook ::
  "platform \<Rightarrow> VenmailIntegrationWebhookOptions \<Rightarrow> error + (request \<Rightarrow> response \<Rightarrow> outcome)" where
  "venmailIntegrationWebhook pf opts =
     (case onEvent opts of
        None \<Rightarrow> Inl (Error ''onEvent handler is required'')
      | Some on_event \<Rightarrow> Inr (handle pf opts on_event))"

section \<open>Vocabulary of the statements\<close>

text \<open>The value of a property, \<open>JUndefined\<close> where the read would throw.\<close>

definition field :: "json \<Rightarrow> jsstring \<Rightarrow> json" where
  "field v k = (case member v k of Inl e \<Rightarrow> JUndefined | Inr x \<Rightarrow> x)"

text \<open>The kind the classifier returns, \<open>None\<close> if it threw.\<close>

definition detected_kind :: "json \<Rightarrow> VenmailWebhookKind option" where
  "detected_kind p = (case detectVenmailWebhookKind p of Inl e \<Rightarrow> None | Inr r \<Rightarrow> Some (kind r))"

text \<open>
  The specification's reading of the classifier: five shapes in a fixed order, the first
  that matches decides. The Bounce, Status and Mail shapes are the source's own guards.
  The source has no guard for the other two: the Integration shape is a string
  \<^verbatim>\<open>event_type\<close>, the Form shape a truthy \<^verbatim>\<open>form_id\<close> with truthy
  \<^verbatim>\<open>events\<close>, written like the guards.
\<close>

definition integration_shape :: "json \<Rightarrow> bool" where
  "integration_shape p = (truthy p \<and> is_string (field p (js ''event_type'')))"

definition form_shape :: "json \<Rightarrow> bool" where
  "form_shape p = (truthy p \<and> truthy (field p (js ''form_id'')) \<and> truthy (field p (js ''events'')))"

definition shapes :: "(VenmailWebhookKind \<times> (json \<Rightarrow> bool)) list" where
  "shapes =
     [(Integration, integration_shape),
      (Form, form_shape),
      (Bounce, \<lambda>p. isBouncePayload p = Inr True),
      (Status, \<lambda>p. isStatusPayload p = Inr True),
      (Mail, \<lambda>p. isMailWebhookPayload p = Inr True)]"

definition first_match :: "json \<Rightarrow> VenmailWebhookKind" where
  "first_match p = (case find (\<lambda>(k, shape). shape p) shapes of None \<Rightarrow> Unknown | Some (k, shape) \<Rightarrow> k)"

text \<open>A string without a surrogate that stands alone.\<close>

fun well_formed :: "jsstring \<Rightarrow> bool" where
  "well_formed [] = True"
| "well_formed [u] = (\<not> is_high u \<and> \<not> is_low u)"
| "well_formed (u # v # us) =
     (if is_high u then is_low v \<and> well_formed us
      else \<not> is_low u \<and> well_formed (v # us))"

text \<open>The code units of a code point.\<close>

definition units :: "nat \<Rightarrow> jsstring" where
  "units n =
     (if n < 0x10000 then [of_nat n]
      else [of_nat (0xD800 + (n - 0x10000) div 0x400), of_nat (0xDC00 + (n - 0x10000) mod 0x400)])"

text \<open>
  Node's answers on the inputs of the repository's signature test: the secret
  \<^verbatim>\<open>test-secret-key\<close> and the body \<^verbatim>\<open>{"test":"data"}\<close>, of which the HMAC-SHA256
  digest is \<^verbatim>\<open>c66db02b...65da8ad6\<close> in hex and \<^verbatim>\<open>xm2wK/HH...XaitY=\<close> in base64, and
  the base64 string \<^verbatim>\<open>AAAA\<close>, which is three zero bytes. Elsewhere it is a default
  and not Node. The theorems below hold for every platform; this one evaluates them on
  these inputs.
\<close>

definition sample_digest :: "byte list" where
  "sample_digest =
     [0xc6, 0x6d, 0xb0, 0x2b, 0xf1, 0xc7, 0x15, 0x7f, 0xa8, 0x62, 0x4c, 0x7d, 0x07, 0x08, 0x1a, 0xef,
      0x58, 0x03, 0xee, 0x15, 0xf9, 0x49, 0x46, 0x61, 0xe6, 0xa1, 0x68, 0x85, 0x65, 0xda, 0x8a, 0xd6]"

definition sample_text :: jsstring where
  \<open>sample_text = js ''{"test":"data"}''\<close>

definition sample_json :: json where
  "sample_json = JObj [(js ''test'', JStr (js ''data''))]"

definition node_sample :: platform where
  "node_sample =
     \<lparr>hmac_sha256 = (\<lambda>key msg.
        if key = utf8 (js ''test-secret-key'') \<and> msg = utf8 sample_text
        then to_digest sample_digest else to_digest []),
      base64_encode = (\<lambda>bs.
        if bs = sample_digest then js ''xm2wK/HHFX+oYkx9Bwga71gD7hX5SUZh5qFohWXaitY='' else []),
      base64_decode = (\<lambda>s.
        if s = js ''xm2wK/HHFX+oYkx9Bwga71gD7hX5SUZh5qFohWXaitY='' then sample_digest
        else if s = js ''AAAA'' then [0, 0, 0]
        else []),
      json_stringify = (\<lambda>v. if v = sample_json then sample_text else js ''{}''),
      json_parse = (\<lambda>raw. if raw = utf8 sample_text then Inr sample_json else Inl SyntaxError)\<rparr>"

text \<open>
  A request as the integration test sends it, with the body that \<^verbatim>\<open>express.json\<close> has
  parsed and the signature \<^verbatim>\<open>invalid-signature\<close>; a fresh response; and options with
  the defaults of the source and an \<^verbatim>\<open>onEvent\<close> that returns at once.
\<close>

definition sample_request :: request where
  "sample_request =
     \<lparr>get = (\<lambda>name. if name = js ''x-venmail-signature'' then Some (js ''invalid-signature'')
                     else None),
      body = Value sample_json,
      rawBody = Value JUndefined\<rparr>"

definition fresh_response :: response where
  "fresh_response = \<lparr>statusCode = 200, sent = None, headersSent = False\<rparr>"

definition quiet_handler :: event_handler where
  "quiet_handler ev req res = (res, None)"

definition sample_options :: "bool \<Rightarrow> VenmailIntegrationWebhookOptions" where
  "sample_options flag =
     \<lparr>secret = js ''test-secret-key'',
      onEvent = Some quiet_handler,
      allowUnsigned = flag,
      signatureHeader = DEFAULT_SIGNATURE_HEADER,
      eventHeader = DEFAULT_EVENT_HEADER,
      rawBodyExtractor = None,
      autoRespond = True\<rparr>"

text \<open>
  Payloads of the statements below: one that has the Bounce and the Status shape at once;
  the status payload of the repository's tests; a status payload whose tag is
  \<^verbatim>\<open>campaign:\<close>; two payloads with a required field that is present and empty; and
  one with an empty \<^verbatim>\<open>status\<close> that has the Form shape.
\<close>

definition bounce_status_payload :: json where
  "bounce_status_payload =
     JObj [(js ''status'', JStr (js ''MessageDelivered'')),
           (js ''message'',
              JObj [(js ''message_id'', JStr (js ''m1'')), (js ''to'', JStr (js ''a@b.com''))]),
           (js ''original_message'',
              JObj [(js ''message_id'', JStr (js ''m0'')), (js ''to'', JStr (js ''c@d.com'')),
                    (js ''tag'', JStr (js ''campaign:456''))]),
           (js ''bounce'', JObj [(js ''type'', JStr (js ''permanent''))])]"

definition status_payload :: json where
  "status_payload =
     JObj [(js ''status'', JStr (js ''MessageDelivered'')),
           (js ''message'',
              JObj [(js ''message_id'', JStr (js ''test-id'')),
                    (js ''to'', JStr (js ''test@example.com'')),
                    (js ''tag'', JStr (js ''campaign:123''))])]"

definition empty_id_payload :: json where
  "empty_id_payload =
     JObj [(js ''status'', JStr (js ''MessageDelivered'')),
           (js ''message'', JObj [(js ''tag'', JStr (js ''campaign:''))])]"

definition falsy_status :: "(jsstring \<times> json) list" where
  "falsy_status =
     [(js ''status'', JStr []), (js ''message'', JObj [(js ''tag'', JStr (js ''x''))]),
      (js ''rcpt_to'', JStr (js ''a@b.com'')), (js ''message_id'', JStr (js ''m1''))]"

definition falsy_message_id :: "(jsstring \<times> json) list" where
  "falsy_message_id = [(js ''message_id'', JStr []), (js ''rcpt_to'', JStr (js ''a@b.com''))]"

definition falsy_status_form :: "(jsstring \<times> json) list" where
  "falsy_status_form =
     [(js ''status'', JStr []), (js ''message'', JObj []),
      (js ''form_id'', JNum (Finite 1)), (js ''events'', JArr [])]"

section \<open>Evaluation steps\<close>

lemma and_then_Inr [simp]: "and_then (Inr v) f = f v"
  by (simp add: and_then_def)

lemma and_then_Inl [simp]: "and_then (Inl e) f = Inl e"
  by (simp add: and_then_def)

lemma unat_of_char16: "unat (of_char c :: jschar) = of_char c"
proof -
  have "(of_char c :: jschar) = of_nat (of_char c)" by (simp add: of_nat_of_char)
  then have "unat (of_char c :: jschar) = of_char c mod 2 ^ LENGTH(16)"
    by (simp only: unat_of_nat)
  moreover have "(of_char c :: nat) < 256" by simp
  ultimately show ?thesis by simp
qed

lemma of_char16_eq_iff [simp]: "(of_char c :: jschar) = of_char d \<longleftrightarrow> c = d"
proof
  assume "(of_char c :: jschar) = of_char d"
  then have "unat (of_char c :: jschar) = unat (of_char d :: jschar)" by simp
  then have "(of_char c :: nat) = of_char d" by (simp only: unat_of_char16)
  then show "c = d" by simp
qed simp

lemma js_eq_iff [simp]: "js a = js b \<longleftrightarrow> a = b"
proof
  assume "js a = js b"
  moreover have "inj (of_char :: char \<Rightarrow> jschar)" by (rule injI) simp
  ultimately show "a = b" by (simp add: js_def inj_map_eq_map)
qed simp

lemma js_Nil [simp]: "js [] = []" "js s = [] \<longleftrightarrow> s = []" "[] = js s \<longleftrightarrow> s = []"
  by (auto simp: js_def)

lemma js_append: "js a @ js b = js (a @ b)"
  by (simp add: js_def)

lemma js_Cons: "of_char c # js s = js (c # s)"
  by (simp add: js_def)

lemma length_js [simp]: "length (js s) = length s"
  by (simp add: js_def)

lemma colon_eq: "of_char c = colon \<longleftrightarrow> c = CHR '':''"
  by (simp only: colon_def of_char16_eq_iff)

lemma takeWhile_js:
  "takeWhile (\<lambda>c. c \<noteq> colon) (js s) = js (takeWhile (\<lambda>c. c \<noteq> CHR '':'') s)"
  by (induction s) (simp_all add: js_def colon_eq)

lemma member_truthy: "truthy v \<Longrightarrow> member v k = Inr (field v k)"
  by (cases v) (auto simp: field_def)

lemma opt_member_field: "opt_member v k = Inr (field v k)"
  by (cases v) (auto simp: field_def)

lemma field_JObj: "field (JObj kvs) k = (case map_of kvs k of None \<Rightarrow> JUndefined | Some v \<Rightarrow> v)"
  by (simp add: field_def)

lemma has_both_eq:
  "has_both p a b = Inr (truthy p \<and> truthy (field p a) \<and> truthy (field p b))"
  by (simp add: has_both_def member_truthy)

lemma both_truthy_eq:
  "truthy p \<Longrightarrow> both_truthy p a b = Inr (truthy (field p a) \<and> truthy (field p b))"
  by (simp add: both_truthy_def member_truthy)

section \<open>The hex codec\<close>

lemma digest_abstype [code abstype]: "Digest (digest_bytes d) = d"
  by (rule digest_bytes_inverse)

lemma digest_bytes_to_digest [code abstract]:
  "digest_bytes (to_digest bs) = take 32 (bs @ replicate 32 0)"
  unfolding to_digest_def by (rule Digest_inverse) simp

lemma below16:
  "(\<forall>m<16::nat. P m) \<longleftrightarrow>
   P 0 \<and> P 1 \<and> P 2 \<and> P 3 \<and> P 4 \<and> P 5 \<and> P 6 \<and> P 7 \<and>
   P 8 \<and> P 9 \<and> P 10 \<and> P 11 \<and> P 12 \<and> P 13 \<and> P 14 \<and> P 15"
  by (simp add: eval_nat_numeral All_less_Suc conj_ac)

lemma unhex_hex_digit_nat:
  "\<forall>m<16::nat. unhex (low_byte (hex_digit (of_nat m))) = Some (of_nat m)"
  unfolding below16 by (simp add: unhex_def hex_digit_def low_byte_def)

lemma unhex_hex_digit: "n < 16 \<Longrightarrow> unhex (low_byte (hex_digit n)) = Some n"
proof -
  assume "n < 16"
  then have "unat n < 16" by (simp add: word_less_nat_alt)
  with unhex_hex_digit_nat
  have "unhex (low_byte (hex_digit (of_nat (unat n)))) = Some (of_nat (unat n))" by blast
  then show ?thesis by simp
qed

lemma nibbles: "push_bit 4 (drop_bit 4 b) OR (b AND 15) = (b::byte)"
proof -
  have m: "(15::byte) = mask 4" by (simp add: mask_eq_exp_minus_1)
  show ?thesis unfolding m
    by (rule bit_eqI)
       (auto simp: bit_or_iff bit_and_iff bit_push_bit_iff bit_drop_bit_eq bit_mask_iff not_less)
qed

lemma high_nibble: "drop_bit 4 (b::byte) < 16"
proof -
  have "unat b < 256" using unsigned_less [of b] by simp
  then have "unat b div 16 < 16" by simp
  then show ?thesis
    by (simp add: word_less_nat_alt unat_drop_bit_eq drop_bit_eq_div unat_div)
qed

lemma low_nibble: "(b::byte) AND 15 < 16"
proof -
  have "b AND 15 \<le> 15" by (rule word_and_le1)
  then show ?thesis by (simp add: word_le_nat_alt word_less_nat_alt)
qed

lemma hex_roundtrip: "hex_decode (hex_encode bs) = bs"
  by (induction bs) (simp_all add: hex_encode_def unhex_hex_digit high_nibble low_nibble nibbles)

lemma hex_decode_stops:
  "unhex (low_byte c) = None \<Longrightarrow> hex_decode (hex_encode bs @ c # rest) = bs"
proof (induction bs)
  case Nil
  then show ?case by (cases rest) (simp_all add: hex_encode_def)
next
  case (Cons b bs)
  then show ?case
    by (simp add: hex_encode_def unhex_hex_digit high_nibble low_nibble nibbles)
qed

lemma hex_decode_odd: "hex_decode (hex_encode bs @ [c]) = bs"
  by (induction bs) (simp_all add: hex_encode_def unhex_hex_digit high_nibble low_nibble nibbles)

lemma length_digest_bytes: "length (digest_bytes d) = 32"
  using digest_bytes [of d] by simp

lemma digest_bytes_not_Nil: "digest_bytes d \<noteq> []" "[] \<noteq> digest_bytes d"
  using length_digest_bytes [of d] by auto

lemma hex_encode_Nil_iff: "hex_encode bs = [] \<longleftrightarrow> bs = []"
  by (cases bs) (simp_all add: hex_encode_def)

lemma digest_bytes_sample: "digest_bytes (to_digest sample_digest) = sample_digest"
  by (simp add: digest_bytes_to_digest sample_digest_def)

lemma hex_sample_digest:
  "hex_encode sample_digest = js ''c66db02bf1c7157fa8624c7d07081aef5803ee15f9494661e6a1688565da8ad6''"
  by (simp add: sample_digest_def hex_encode_def hex_digit_def js_def)

lemma hmac_sample:
  "hmac_sha256 node_sample (utf8 (js ''test-secret-key'')) (utf8 sample_text)
     = to_digest sample_digest"
  by (simp add: node_sample_def)

section \<open>The UTF-8 encoder\<close>

lemma unat_byte_of_nat: "n < 256 \<Longrightarrow> unat (of_nat n :: byte) = n"
  by (simp add: unat_of_nat)

lemma div_4096: "n div 0x1000 = n div 0x40 div (0x40::nat)"
  by (simp add: div_mult2_eq [symmetric])

lemma div_262144: "n div 0x40000 = n div 0x1000 div (0x40::nat)"
  by (simp add: div_mult2_eq [symmetric])

lemma utf8_bytes_shape:
  assumes "n < 0x110000"
  obtains
    (one) "n < 0x80" "map unat (utf8_bytes n) = [n]"
  | (two) a b where "a < 0x20" "b < 0x40" "n = a * 0x40 + b"
      "map unat (utf8_bytes n) = [0xC0 + a, 0x80 + b]"
  | (three) a b c where "a < 0x10" "b < 0x40" "c < 0x40" "n = (a * 0x40 + b) * 0x40 + c"
      "map unat (utf8_bytes n) = [0xE0 + a, 0x80 + b, 0x80 + c]"
  | (four) a b c d where "a < 0x08" "b < 0x40" "c < 0x40" "d < 0x40"
      "n = ((a * 0x40 + b) * 0x40 + c) * 0x40 + d"
      "map unat (utf8_bytes n) = [0xF0 + a, 0x80 + b, 0x80 + c, 0x80 + d]"
proof -
  have m: "m mod 0x40 < 0x40" for m :: nat by simp
  have e: "0x80 + m mod 0x40 < 256" for m :: nat using m [of m] by linarith
  have s1: "n div 0x40 * 0x40 + n mod 0x40 = n" by simp
  have s2: "n div 0x1000 * 0x40 + n div 0x40 mod 0x40 = n div 0x40"
    unfolding div_4096 by simp
  have s3: "n div 0x40000 * 0x40 + n div 0x1000 mod 0x40 = n div 0x1000"
    unfolding div_262144 by simp
  consider "n < 0x80" | "0x80 \<le> n" "n < 0x800" | "0x800 \<le> n" "n < 0x10000" | "0x10000 \<le> n"
    by linarith
  then show ?thesis
  proof cases
    case 1
    then have "map unat (utf8_bytes n) = [n]"
      by (simp add: utf8_bytes_def unat_byte_of_nat)
    with 1 show ?thesis by (rule one)
  next
    case 2
    define a where "a = n div 0x40"
    define b where "b = n mod 0x40"
    have a: "a < 0x20" using 2 by (simp add: a_def)
    then have "0xC0 + a < 256" by linarith
    then have "map unat (utf8_bytes n) = [0xC0 + a, 0x80 + b]"
      using 2 e [of n] unfolding a_def b_def
      by (simp add: utf8_bytes_def unat_byte_of_nat del: of_nat_add of_nat_numeral)
    moreover have "b < 0x40" "n = a * 0x40 + b" by (simp_all add: a_def b_def)
    ultimately show ?thesis using a by (simp add: two)
  next
    case 3
    define a where "a = n div 0x1000"
    define b where "b = n div 0x40 mod 0x40"
    define c where "c = n mod 0x40"
    have a: "a < 0x10" using 3 by (simp add: a_def)
    then have "0xE0 + a < 256" by linarith
    then have "map unat (utf8_bytes n) = [0xE0 + a, 0x80 + b, 0x80 + c]"
      using 3 e [of n] e [of "n div 0x40"] unfolding a_def b_def c_def
      by (simp add: utf8_bytes_def unat_byte_of_nat del: of_nat_add of_nat_numeral)
    moreover have "n = (a * 0x40 + b) * 0x40 + c"
      unfolding a_def b_def c_def s2 by simp
    moreover have "b < 0x40" "c < 0x40" by (simp_all add: b_def c_def)
    ultimately show ?thesis using a by (simp add: three)
  next
    case 4
    define a where "a = n div 0x40000"
    define b where "b = n div 0x1000 mod 0x40"
    define c where "c = n div 0x40 mod 0x40"
    define d where "d = n mod 0x40"
    have a: "a < 0x08" using 4 assms by (simp add: a_def)
    then have "0xF0 + a < 256" by linarith
    then have "map unat (utf8_bytes n) = [0xF0 + a, 0x80 + b, 0x80 + c, 0x80 + d]"
      using 4 e [of n] e [of "n div 0x40"] e [of "n div 0x1000"] unfolding a_def b_def c_def d_def
      by (simp add: utf8_bytes_def unat_byte_of_nat del: of_nat_add of_nat_numeral)
    moreover have "n = ((a * 0x40 + b) * 0x40 + c) * 0x40 + d"
      unfolding a_def b_def c_def d_def s3 s2 by simp
    moreover have "b < 0x40" "c < 0x40" "d < 0x40" by (simp_all add: b_def c_def d_def)
    ultimately show ?thesis using a by (simp add: four)
  qed
qed

lemma utf8_bytes_not_Nil [simp]: "utf8_bytes n \<noteq> []"
  by (simp add: utf8_bytes_def)

lemma utf8_bytes_prefix:
  assumes n: "n < 0x110000" and m: "m < 0x110000"
    and eq: "utf8_bytes n @ xs = utf8_bytes m @ ys"
  shows "n = m \<and> xs = ys"
proof -
  from eq have "map unat (utf8_bytes n) @ map unat xs = map unat (utf8_bytes m) @ map unat ys"
    by (metis map_append)
  then have "n = m"
    by - (rule utf8_bytes_shape [OF n]; rule utf8_bytes_shape [OF m]; simp)
  with eq show ?thesis by simp
qed

lemma code_point_bounds:
  "is_high u \<Longrightarrow> is_low v \<Longrightarrow> 0x10000 \<le> code_point u v \<and> code_point u v < 0x110000"
  unfolding is_high_def is_low_def code_point_def by linarith

lemma units_code_point: "is_high u \<Longrightarrow> is_low v \<Longrightarrow> units (code_point u v) = [u, v]"
proof -
  assume h: "is_high u" and l: "is_low v"
  define a where "a = unat u - 0xD800"
  define b where "b = unat v - 0xDC00"
  have u: "unat u = 0xD800 + a" and v: "unat v = 0xDC00 + b" and b: "b < 0x400"
    using h l unfolding is_high_def is_low_def a_def b_def by linarith+
  have cp: "code_point u v - 0x10000 = a * 0x400 + b"
    by (simp add: code_point_def a_def b_def)
  have "(a * 0x400 + b) div 0x400 = a" "(a * 0x400 + b) mod 0x400 = b"
    using b by simp_all
  moreover have "\<not> code_point u v < 0x10000" using code_point_bounds [OF h l] by linarith
  ultimately have "units (code_point u v) = [of_nat (unat u), of_nat (unat v)]"
    unfolding units_def cp u v by (simp del: of_nat_add of_nat_numeral)
  then show ?thesis by simp
qed

lemma units_unat: "units (unat (u :: jschar)) = [u]"
proof -
  have "unat u < 2 ^ LENGTH(16)" by (rule unsigned_less)
  then show ?thesis by (simp add: units_def)
qed

lemma units_not_Nil [simp]: "units n \<noteq> []"
  by (simp add: units_def)

lemma utf8_Nil_iff [simp]: "utf8 s = [] \<longleftrightarrow> s = []"
  by (induction s rule: utf8.induct) simp_all

lemma Nil_utf8_iff [simp]: "[] = utf8 s \<longleftrightarrow> s = []"
  by (metis utf8_Nil_iff)

lemma utf8_step:
  assumes "well_formed s" and "s \<noteq> []"
  shows "\<exists>n r. n < 0x110000 \<and> s = units n @ r \<and> well_formed r \<and> utf8 s = utf8_bytes n @ utf8 r"
proof (cases s rule: utf8.cases)
  case 1
  with assms show ?thesis by simp
next
  case (2 u)
  have "unat u < 2 ^ LENGTH(16)" by (rule unsigned_less)
  then have "unat u < 0x110000" by simp
  moreover have "s = units (unat u) @ []" using 2 by (simp add: units_unat)
  moreover have "utf8 s = utf8_bytes (unat u) @ utf8 []"
    using 2 assms by (simp add: scalar_def)
  ultimately show ?thesis using well_formed.simps(1) by blast
next
  case (3 u v us)
  show ?thesis
  proof (cases "is_high u")
    case True
    with 3 assms have l: "is_low v" and w: "well_formed us" by simp_all
    have "code_point u v < 0x110000" using code_point_bounds [OF True l] by simp
    moreover have "s = units (code_point u v) @ us" using 3 by (simp add: units_code_point True l)
    moreover have "utf8 s = utf8_bytes (code_point u v) @ utf8 us" using 3 True l by simp
    ultimately show ?thesis using w by blast
  next
    case False
    with 3 assms have l: "\<not> is_low u" and w: "well_formed (v # us)" by simp_all
    have "unat u < 2 ^ LENGTH(16)" by (rule unsigned_less)
    then have "unat u < 0x110000" by simp
    moreover have "s = units (unat u) @ v # us" using 3 by (simp add: units_unat)
    moreover have "utf8 s = utf8_bytes (unat u) @ utf8 (v # us)"
      using 3 False l by (simp add: scalar_def)
    ultimately show ?thesis using w by blast
  qed
qed

lemma utf8_inj: "well_formed a \<Longrightarrow> well_formed b \<Longrightarrow> utf8 a = utf8 b \<Longrightarrow> a = b"
proof (induction "length a" arbitrary: a b rule: less_induct)
  case less
  show ?case
  proof (cases "a = []")
    case True
    with less.prems show ?thesis by (metis utf8_Nil_iff)
  next
    case False
    with less.prems have nb: "b \<noteq> []" by (metis utf8_Nil_iff)
    from utf8_step [OF less.prems(1) False] obtain n r where
      n: "n < 0x110000" "a = units n @ r" "well_formed r" "utf8 a = utf8_bytes n @ utf8 r"
      by blast
    from utf8_step [OF less.prems(2) nb] obtain m q where
      m: "m < 0x110000" "b = units m @ q" "well_formed q" "utf8 b = utf8_bytes m @ utf8 q"
      by blast
    from less.prems(3) n(4) m(4) have "utf8_bytes n @ utf8 r = utf8_bytes m @ utf8 q" by simp
    from utf8_bytes_prefix [OF n(1) m(1) this] have nm: "n = m" and rq: "utf8 r = utf8 q"
      by simp_all
    have "length r < length a" using n(2) units_not_Nil [of n] by (cases "units n") simp_all
    from less.hyps [OF this n(3) m(3) rq] have "r = q" .
    with nm n(2) m(2) show ?thesis by simp
  qed
qed

lemma ascii_not_surrogate [simp]: "\<not> is_high (of_char c)" "\<not> is_low (of_char c)"
proof -
  have "(of_char c :: nat) < 256" by simp
  then show "\<not> is_high (of_char c)" "\<not> is_low (of_char c)"
    unfolding is_high_def is_low_def unat_of_char16 by linarith+
qed

lemma well_formed_js [simp]: "well_formed (js s)"
proof (induction s)
  case Nil
  then show ?case by (simp add: js_def)
next
  case (Cons c s)
  then show ?case by (cases s) (simp_all add: js_def)
qed

lemma utf8_js_eq_iff [simp]: "utf8 (js a) = utf8 (js b) \<longleftrightarrow> a = b"
proof
  assume "utf8 (js a) = utf8 (js b)"
  then have "js a = js b" by (rule utf8_inj [OF well_formed_js well_formed_js])
  then show "a = b" by simp
qed simp

section \<open>The two verifiers\<close>

lemma or_false_timingSafeEqual: "or_false (timingSafeEqual a b) = Inr (a = b)"
  by (auto simp: or_false_def timingSafeEqual_def)

lemma verify_hex:
  "sec \<noteq> [] \<Longrightarrow>
   verifyVenmailSignature pf sec sg rb Hex =
     Inr (sg \<noteq> [] \<and> hex_decode sg = digest_bytes (hmac_sha256 pf (utf8 sec) (body_bytes rb)))"
  by (simp add: verifyVenmailSignature_def or_false_timingSafeEqual hex_roundtrip)

lemma verify_any:
  "sec \<noteq> [] \<Longrightarrow>
   verifyVenmailSignature pf sec sg rb enc =
     Inr (sg \<noteq> [] \<and> buffer_from pf sg enc =
            buffer_from pf (digest pf enc (hmac_sha256 pf (utf8 sec) (body_bytes rb))) enc)"
  by (simp add: verifyVenmailSignature_def or_false_timingSafeEqual)

lemma verify_base64:
  "sec \<noteq> [] \<Longrightarrow>
   verifyVenmailSignature pf sec sg rb Base64 =
     Inr (sg \<noteq> [] \<and> base64_decode pf sg =
            base64_decode pf
              (base64_encode pf (digest_bytes (hmac_sha256 pf (utf8 sec) (body_bytes rb)))))"
  by (simp add: verify_any)

lemma shared_secret_eq:
  "sec \<noteq> [] \<Longrightarrow>
   verifySharedSecretHeader sec provided = Inr (\<exists>p. provided = Some p \<and> utf8 p = utf8 sec)"
  by (auto simp: verifySharedSecretHeader_def or_false_timingSafeEqual split: option.splits)

lemma hex_decode_invalid: "hex_decode (js ''invalid-signature'') = []"
  by (simp add: js_def unhex_def low_byte_def)

text \<open>
  C4. With an empty secret, whatever the other arguments, each of the two verifiers
  throws its configuration error; it does not return \<^verbatim>\<open>false\<close>.
\<close>

theorem empty_secret_raises:
  "verifyVenmailSignature pf [] sg rb enc
     = Inl (Error ''Venmail signature validation requires a secret'')
   \<and> verifySharedSecretHeader [] provided
     = Inl (Error ''Missing expected secret for header validation'')"
  by (simp add: verifyVenmailSignature_def verifySharedSecretHeader_def)

text \<open>
  C1. For a secret that is not empty and any bytes \<open>P\<close>, the lowercase hex digest of the
  HMAC-SHA256 of \<open>P\<close> under the secret is accepted as the signature of the raw body \<open>P\<close>
  under the hex encoding.
\<close>

theorem valid_hex_signature_accepted:
  "sec \<noteq> [] \<Longrightarrow>
   verifyVenmailSignature pf sec
     (hex_encode (digest_bytes (hmac_sha256 pf (utf8 sec) P))) (Buffer P) Hex = Inr True"
proof -
  assume "sec \<noteq> []"
  have "digest_bytes (hmac_sha256 pf (utf8 sec) P) \<noteq> []"
    using length_digest_bytes [of "hmac_sha256 pf (utf8 sec) P"] by auto
  then have "hex_encode (digest_bytes (hmac_sha256 pf (utf8 sec) P)) \<noteq> []"
    by (simp add: hex_encode_Nil_iff)
  with \<open>sec \<noteq> []\<close> show ?thesis
    by (simp add: verify_hex hex_roundtrip)
qed

theorem valid_hex_signature_accepted_witness:
  "js ''test-secret-key'' \<noteq> [] \<and>
   verifyVenmailSignature node_sample (js ''test-secret-key'')
     (js ''c66db02bf1c7157fa8624c7d07081aef5803ee15f9494661e6a1688565da8ad6'')
     (Buffer (utf8 sample_text)) Hex = Inr True"
  using valid_hex_signature_accepted [of "js ''test-secret-key''" node_sample "utf8 sample_text"]
  by (simp only: hmac_sample digest_bytes_sample hex_sample_digest) simp

text \<open>
  C5, as the specification states it, fails: a signature that is malformed hex is accepted
  when the digits in front of its first character that is no hex digit are the digest.
  Here the signature is the digest of the test's body followed by \<^verbatim>\<open>zz\<close>.
\<close>

theorem malformed_signature_accepted:
  "unhex (low_byte (of_char CHR ''z'')) = None \<and>
   verifyVenmailSignature node_sample (js ''test-secret-key'')
     (js ''c66db02bf1c7157fa8624c7d07081aef5803ee15f9494661e6a1688565da8ad6zz'')
     (Buffer (utf8 sample_text)) Hex = Inr True"
proof -
  have z: "unhex (low_byte (of_char CHR ''z'')) = None" by (simp add: unhex_def low_byte_def)
  have "hex_decode (hex_encode sample_digest @ js ''zz'') = sample_digest"
    using hex_decode_stops [OF z, of sample_digest "js ''z''"] by (simp add: js_def)
  then have "hex_decode (js ''c66db02bf1c7157fa8624c7d07081aef5803ee15f9494661e6a1688565da8ad6zz'')
      = sample_digest"
    by (simp add: hex_sample_digest js_append)
  with z show ?thesis
    by (simp add: verify_hex hmac_sample digest_bytes_sample)
qed

text \<open>
  Two more signatures and a header that are accepted. Node reads a hex digit from the low
  byte of a code unit, so with U+0163 in the place of the first digit \<^verbatim>\<open>c\<close> (0x63) the
  signature decodes to the digest; a trailing odd digit is dropped; and two different
  strings that are each one unpaired surrogate have the same UTF-8 encoding, that of
  U+FFFD.
\<close>

lemma low_byte_signature_accepted:
  "verifyVenmailSignature node_sample (js ''test-secret-key'')
     (0x0163 # js ''66db02bf1c7157fa8624c7d07081aef5803ee15f9494661e6a1688565da8ad6'')
     (Buffer (utf8 sample_text)) Hex = Inr True"
proof -
  have "hex_decode (0x0163 # js ''66db02bf1c7157fa8624c7d07081aef5803ee15f9494661e6a1688565da8ad6'')
      = hex_decode (js ''c66db02bf1c7157fa8624c7d07081aef5803ee15f9494661e6a1688565da8ad6'')"
    by (simp add: js_def low_byte_def unhex_def)
  then show ?thesis
    by (simp add: verify_hex hmac_sample digest_bytes_sample hex_sample_digest [symmetric]
          hex_roundtrip)
qed

lemma odd_signature_accepted:
  "verifyVenmailSignature node_sample (js ''test-secret-key'')
     (js ''c66db02bf1c7157fa8624c7d07081aef5803ee15f9494661e6a1688565da8ad6a'')
     (Buffer (utf8 sample_text)) Hex = Inr True"
proof -
  have "hex_decode (hex_encode sample_digest @ js ''a'') = sample_digest"
    using hex_decode_odd [of sample_digest "of_char CHR ''a''"] by (simp add: js_def)
  then have "hex_decode (js ''c66db02bf1c7157fa8624c7d07081aef5803ee15f9494661e6a1688565da8ad6a'')
      = sample_digest"
    by (simp add: hex_sample_digest js_append)
  then show ?thesis
    by (simp add: verify_hex hmac_sample digest_bytes_sample)
qed

lemma lone_surrogates_compare_equal:
  "utf8 [0xD800] = [0xEF, 0xBF, 0xBD] \<and> utf8 [0xDC00] = [0xEF, 0xBF, 0xBD]
   \<and> verifySharedSecretHeader [0xD800] (Some [0xDC00]) = Inr True"
proof -
  have "utf8 [0xD800] = [0xEF, 0xBF, 0xBD]" "utf8 [0xDC00] = [0xEF, 0xBF, 0xBD]"
    by (simp_all add: scalar_def is_high_def is_low_def utf8_bytes_def)
  then show ?thesis by (simp add: shared_secret_eq)
qed

text \<open>
  C5, amended. With a secret that is not empty neither verifier throws.
  \<^verbatim>\<open>verifyVenmailSignature\<close> returns \<^verbatim>\<open>false\<close> when the signature is empty, and when
  the bytes Node decodes from the signature are not the digest: under the hex encoding
  always, under base64 given that decoding the encoded digest gives the digest back. A
  signature that is malformed is judged by the bytes decoded from it, which for hex are
  the pairs of hex digits, each read from the low byte of its code unit, in front of the
  first pair that is none. \<^verbatim>\<open>verifySharedSecretHeader\<close> returns \<^verbatim>\<open>false\<close> when
  \<^verbatim>\<open>provided\<close> is absent or empty and when its UTF-8 encoding is not that of the secret,
  which is so for every other string if neither of the two has an unpaired surrogate.
\<close>

theorem verification_failure_is_false:
  "sec \<noteq> [] \<Longrightarrow>
     (\<exists>b. verifyVenmailSignature pf sec sg rb enc = Inr b)
   \<and> (sg = [] \<longrightarrow> verifyVenmailSignature pf sec sg rb enc = Inr False)
   \<and> (hex_decode sg \<noteq> digest_bytes (hmac_sha256 pf (utf8 sec) (body_bytes rb)) \<longrightarrow>
        verifyVenmailSignature pf sec sg rb Hex = Inr False)
   \<and> (base64_decode pf (base64_encode pf (digest_bytes (hmac_sha256 pf (utf8 sec) (body_bytes rb))))
          = digest_bytes (hmac_sha256 pf (utf8 sec) (body_bytes rb)) \<longrightarrow>
        base64_decode pf sg \<noteq> digest_bytes (hmac_sha256 pf (utf8 sec) (body_bytes rb)) \<longrightarrow>
        verifyVenmailSignature pf sec sg rb Base64 = Inr False)
   \<and> (\<exists>b. verifySharedSecretHeader sec provided = Inr b)
   \<and> (provided = None \<or> provided = Some [] \<longrightarrow>
        verifySharedSecretHeader sec provided = Inr False)
   \<and> (provided = Some p \<longrightarrow> utf8 p \<noteq> utf8 sec \<longrightarrow>
        verifySharedSecretHeader sec provided = Inr False)
   \<and> (provided = Some p \<longrightarrow> well_formed p \<longrightarrow> well_formed sec \<longrightarrow> p \<noteq> sec \<longrightarrow>
        verifySharedSecretHeader sec provided = Inr False)"
proof -
  assume sec: "sec \<noteq> []"
  note any = verify_any [OF sec, of pf sg rb enc]
    and hex = verify_hex [OF sec, of pf sg rb]
    and b64 = verify_base64 [OF sec, of pf sg rb]
    and shared = shared_secret_eq [OF sec, of provided]
  have returns: "\<exists>b. verifyVenmailSignature pf sec sg rb enc = Inr b"
    and empty: "sg = [] \<longrightarrow> verifyVenmailSignature pf sec sg rb enc = Inr False"
    unfolding any by simp_all
  have hex_false:
    "hex_decode sg \<noteq> digest_bytes (hmac_sha256 pf (utf8 sec) (body_bytes rb)) \<longrightarrow>
       verifyVenmailSignature pf sec sg rb Hex = Inr False"
    unfolding hex by simp
  have b64_false:
    "base64_decode pf (base64_encode pf (digest_bytes (hmac_sha256 pf (utf8 sec) (body_bytes rb))))
       = digest_bytes (hmac_sha256 pf (utf8 sec) (body_bytes rb)) \<longrightarrow>
     base64_decode pf sg \<noteq> digest_bytes (hmac_sha256 pf (utf8 sec) (body_bytes rb)) \<longrightarrow>
     verifyVenmailSignature pf sec sg rb Base64 = Inr False"
    unfolding b64 by simp
  have shared_returns: "\<exists>b. verifySharedSecretHeader sec provided = Inr b"
    unfolding shared by simp
  have absent: "provided = None \<or> provided = Some [] \<longrightarrow>
      verifySharedSecretHeader sec provided = Inr False"
    unfolding shared using sec by auto
  have differs: "provided = Some p \<longrightarrow> utf8 p \<noteq> utf8 sec \<longrightarrow>
      verifySharedSecretHeader sec provided = Inr False"
    unfolding shared by simp
  have other: "provided = Some p \<longrightarrow> well_formed p \<longrightarrow> well_formed sec \<longrightarrow> p \<noteq> sec \<longrightarrow>
      verifySharedSecretHeader sec provided = Inr False"
    unfolding shared using utf8_inj [of p sec] by auto
  from returns empty hex_false b64_false shared_returns absent differs other
  show ?thesis by (intro conjI)
qed

theorem verification_failure_is_false_witness:
  "js ''test-secret-key'' \<noteq> []
   \<and> hex_decode (js ''invalid-signature'') = []
   \<and> digest_bytes (hmac_sha256 node_sample (utf8 (js ''test-secret-key'')) (utf8 sample_text))
       = sample_digest
   \<and> [] \<noteq> sample_digest
   \<and> verifyVenmailSignature node_sample (js ''test-secret-key'') (js ''invalid-signature'')
        (Buffer (utf8 sample_text)) Hex = Inr False
   \<and> verifyVenmailSignature node_sample (js ''test-secret-key'') [] (Buffer (utf8 sample_text)) Hex
        = Inr False
   \<and> base64_decode node_sample (base64_encode node_sample sample_digest) = sample_digest
   \<and> base64_decode node_sample (js ''AAAA'') = [0, 0, 0]
   \<and> [0, 0, 0] \<noteq> sample_digest
   \<and> verifyVenmailSignature node_sample (js ''test-secret-key'') (js ''AAAA'')
        (Buffer (utf8 sample_text)) Base64 = Inr False
   \<and> well_formed (js ''wrong-secret'') \<and> well_formed (js ''test-secret-key'')
   \<and> js ''wrong-secret'' \<noteq> js ''test-secret-key''
   \<and> utf8 (js ''wrong-secret'') \<noteq> utf8 (js ''test-secret-key'')
   \<and> verifySharedSecretHeader (js ''test-secret-key'') (Some (js ''wrong-secret'')) = Inr False
   \<and> verifySharedSecretHeader (js ''test-secret-key'') None = Inr False
   \<and> verifySharedSecretHeader (js ''test-secret-key'') (Some []) = Inr False"
proof -
  note i = hex_decode_invalid
  have b: "base64_decode node_sample (base64_encode node_sample sample_digest) = sample_digest"
    "base64_decode node_sample (js ''AAAA'') = [0, 0, 0]"
    by (simp_all add: node_sample_def)
  have n: "sample_digest \<noteq> [0, 0, 0]" "[0, 0, 0] \<noteq> sample_digest" "[] \<noteq> sample_digest"
    by (simp_all add: sample_digest_def)
  show ?thesis
    using verification_failure_is_false
            [where sec = "js ''test-secret-key''" and pf = node_sample
               and sg = "js ''invalid-signature''" and rb = "Buffer (utf8 sample_text)"
               and enc = Hex and provided = "Some (js ''wrong-secret'')"
               and p = "js ''wrong-secret''"]
          verification_failure_is_false
            [where sec = "js ''test-secret-key''" and pf = node_sample and sg = "[]"
               and rb = "Buffer (utf8 sample_text)" and enc = Hex and provided = None]
          verification_failure_is_false
            [where sec = "js ''test-secret-key''" and pf = node_sample and sg = "js ''AAAA''"
               and rb = "Buffer (utf8 sample_text)" and enc = Base64 and provided = "Some []"]
          i b n
    by (simp add: digest_bytes_not_Nil hmac_sample digest_bytes_sample)
qed

section \<open>The handler\<close>

lemma providedSignature_secret: "providedSignature (opts\<lparr>secret := s\<rparr>) req = providedSignature opts req"
  by (simp add: providedSignature_def)

lemma raw_of_secret: "raw_of pf (opts\<lparr>secret := s\<rparr>) req = raw_of pf opts req"
  by (simp add: raw_of_def)

lemma enrich_secret: "enrich (opts\<lparr>secret := s\<rparr>) req parsed = enrich opts req parsed"
  by (simp add: enrich_def providedSignature_secret)

lemma deliver_secret: "deliver pf (opts\<lparr>secret := s\<rparr>) f req res raw = deliver pf opts f req res raw"
proof -
  have "enrich (opts\<lparr>secret := s\<rparr>) req = enrich opts req"
    by (rule ext) (rule enrich_secret)
  then show ?thesis
    by (simp add: deliver_def cong: sum.case_cong prod.case_cong option.case_cong)
qed

lemma handle_secret_irrelevant:
  "allowUnsigned opts \<Longrightarrow> handle pf (opts\<lparr>secret := s\<rparr>) f req res = handle pf opts f req res"
  by (simp add: handle_def raw_of_secret deliver_secret split: sum.splits)

lemma handle_unsigned:
  "allowUnsigned opts \<Longrightarrow>
   handle pf opts f req res =
     (case raw_of pf opts req of Inl e \<Rightarrow> failed res e | Inr raw \<Rightarrow> deliver pf opts f req res raw)"
  by (simp add: handle_def split: sum.splits)

text \<open>
  C6. Let \<open>h\<close> be the handler that \<^verbatim>\<open>venmailIntegrationWebhook\<close> returns. Without
  \<^verbatim>\<open>allowUnsigned\<close>, when the verifier returns \<^verbatim>\<open>false\<close> for the raw body and the
  signature header, the run of \<open>h\<close> is: the response 401 with the body
  \<^verbatim>\<open>{"ok": false, "error": "Invalid Venmail signature"}\<close>, no call of \<^verbatim>\<open>onEvent\<close>, no
  call of \<^verbatim>\<open>next\<close>; and \<^verbatim>\<open>onEvent\<close> is called in no run in which the verifier does
  not return \<^verbatim>\<open>true\<close>. With \<^verbatim>\<open>allowUnsigned\<close> the run is the steps behind the check
  on the raw body, whatever the signature, and the handler is the same for every secret,
  the empty one included.
\<close>

theorem invalid_signature_rejected:
  "venmailIntegrationWebhook pf opts = Inr h \<Longrightarrow>
   (\<not> allowUnsigned opts \<longrightarrow> raw_of pf opts req = Inr raw \<longrightarrow>
      verifyVenmailSignature pf (secret opts) (providedSignature opts req) (Buffer raw) Hex
        = Inr False \<longrightarrow>
      h req res = \<lparr>response = status_json 401 invalid_signature res, delivered = [],
                   next_error = None\<rparr>)
   \<and> (\<not> allowUnsigned opts \<longrightarrow> raw_of pf opts req = Inr raw \<longrightarrow>
      verifyVenmailSignature pf (secret opts) (providedSignature opts req) (Buffer raw) Hex
        \<noteq> Inr True \<longrightarrow>
      delivered (h req res) = [])
   \<and> (allowUnsigned opts \<longrightarrow>
        (\<exists>on_event. onEvent opts = Some on_event \<and>
           h req res = (case raw_of pf opts req of
                          Inl e \<Rightarrow> failed res e
                        | Inr raw \<Rightarrow> deliver pf opts on_event req res raw))
        \<and> venmailIntegrationWebhook pf (opts\<lparr>secret := s\<rparr>) = Inr h)"
proof -
  assume "venmailIntegrationWebhook pf opts = Inr h"
  then obtain f where f: "onEvent opts = Some f" and h: "h = handle pf opts f"
    by (auto simp: venmailIntegrationWebhook_def split: option.splits)
  have rejected: "h req res = \<lparr>response = status_json 401 invalid_signature res, delivered = [],
      next_error = None\<rparr>"
    if "\<not> allowUnsigned opts" "raw_of pf opts req = Inr raw"
       "verifyVenmailSignature pf (secret opts) (providedSignature opts req) (Buffer raw) Hex
          = Inr False"
    using that by (simp add: h handle_def)
  have silent: "delivered (h req res) = []"
    if "\<not> allowUnsigned opts" "raw_of pf opts req = Inr raw"
       "verifyVenmailSignature pf (secret opts) (providedSignature opts req) (Buffer raw) Hex
          \<noteq> Inr True"
    using that by (auto simp: h handle_def failed_def split: sum.splits)
  have skipped: "venmailIntegrationWebhook pf (opts\<lparr>secret := s\<rparr>) = Inr h"
    if "allowUnsigned opts"
    using that f by (simp add: venmailIntegrationWebhook_def h fun_eq_iff handle_secret_irrelevant)
  show ?thesis
    using rejected silent skipped f by (auto simp: h handle_unsigned)
qed

lemma sample_raw: "raw_of node_sample (sample_options flag) sample_request = Inr (utf8 sample_text)"
  by (simp add: raw_of_def sample_options_def resolveRawBody_def sample_request_def
        sample_json_def node_sample_def)

lemma sample_signature: "providedSignature (sample_options flag) sample_request = js ''invalid-signature''"
  by (simp add: providedSignature_def sample_options_def sample_request_def
        DEFAULT_SIGNATURE_HEADER_def)

lemma sample_fields:
  "secret (sample_options flag) = js ''test-secret-key''"
  "eventHeader (sample_options flag) = js ''x-venmail-event''"
  "autoRespond (sample_options flag)"
  "allowUnsigned (sample_options flag) = flag"
  "onEvent (sample_options flag) = Some quiet_handler"
  by (simp_all add: sample_options_def DEFAULT_EVENT_HEADER_def)

lemma sample_refused:
  "verifyVenmailSignature node_sample (secret (sample_options False))
     (providedSignature (sample_options False) sample_request) (Buffer (utf8 sample_text)) Hex
   = Inr False"
  by (simp add: sample_signature sample_fields verify_hex hex_decode_invalid digest_bytes_not_Nil)

lemma sample_webhook:
  "venmailIntegrationWebhook node_sample (sample_options flag)
     = Inr (handle node_sample (sample_options flag) quiet_handler)"
  by (simp add: venmailIntegrationWebhook_def sample_options_def)

lemma sample_delivered:
  "deliver node_sample (sample_options True) quiet_handler sample_request fresh_response
     (utf8 sample_text)
   = \<lparr>response = \<lparr>statusCode = 200, sent = Some (JObj [(js ''ok'', JBool True)]),
                    headersSent = True\<rparr>,
      delivered =
        [JObj [(js ''test'', JStr (js ''data'')),
               (js ''headers'',
                JObj [(js ''x-venmail-event'', JStr []),
                      (js ''x-venmail-signature'', JStr (js ''invalid-signature''))])]],
      next_error = None\<rparr>"
proof -
  have "get sample_request (js ''x-venmail-event'') = None"
    by (simp add: sample_request_def)
  then show ?thesis
    by (simp add: deliver_def enrich_def sample_signature sample_fields node_sample_def
          sample_json_def quiet_handler_def fresh_response_def status_json_def)
qed

theorem invalid_signature_rejected_witness:
  "venmailIntegrationWebhook node_sample (sample_options False)
     = Inr (handle node_sample (sample_options False) quiet_handler)
   \<and> \<not> allowUnsigned (sample_options False)
   \<and> raw_of node_sample (sample_options False) sample_request = Inr (utf8 sample_text)
   \<and> verifyVenmailSignature node_sample (secret (sample_options False))
        (providedSignature (sample_options False) sample_request) (Buffer (utf8 sample_text)) Hex
       = Inr False
   \<and> handle node_sample (sample_options False) quiet_handler sample_request fresh_response
       = \<lparr>response = \<lparr>statusCode = 401, sent = Some invalid_signature, headersSent = True\<rparr>,
          delivered = [], next_error = None\<rparr>
   \<and> venmailIntegrationWebhook node_sample (sample_options True)
       = Inr (handle node_sample (sample_options True) quiet_handler)
   \<and> allowUnsigned (sample_options True)
   \<and> handle node_sample (sample_options True) quiet_handler sample_request fresh_response
       = \<lparr>response = \<lparr>statusCode = 200, sent = Some (JObj [(js ''ok'', JBool True)]),
                        headersSent = True\<rparr>,
          delivered =
            [JObj [(js ''test'', JStr (js ''data'')),
                   (js ''headers'',
                    JObj [(js ''x-venmail-event'', JStr []),
                          (js ''x-venmail-signature'', JStr (js ''invalid-signature''))])]],
          next_error = None\<rparr>"
proof -
  have signed: "\<not> allowUnsigned (sample_options False)"
    and unsigned: "allowUnsigned (sample_options True)"
    and on_event: "onEvent (sample_options True) = Some quiet_handler"
    by (simp_all add: sample_fields)
  have rejected:
    "handle node_sample (sample_options False) quiet_handler sample_request fresh_response
       = \<lparr>response = \<lparr>statusCode = 401, sent = Some invalid_signature, headersSent = True\<rparr>,
          delivered = [], next_error = None\<rparr>"
    using invalid_signature_rejected
            [OF sample_webhook, of False sample_request "utf8 sample_text" fresh_response]
          signed sample_raw sample_refused
    by (simp add: status_json_def fresh_response_def)
  have accepted:
    "handle node_sample (sample_options True) quiet_handler sample_request fresh_response
       = deliver node_sample (sample_options True) quiet_handler sample_request fresh_response
           (utf8 sample_text)"
    using invalid_signature_rejected
            [OF sample_webhook, of True sample_request "utf8 sample_text" fresh_response]
          unsigned on_event sample_raw
    by simp
  show ?thesis
    using signed unsigned sample_raw sample_refused sample_webhook rejected accepted
    by (simp only: sample_delivered) simp
qed

section \<open>Campaign tags\<close>

lemma split_takeWhile: "\<exists>rest. split sep s = takeWhile (\<lambda>c. c \<noteq> sep) s # rest"
  by (induction s) auto

lemma split_append: "sep \<notin> set a \<Longrightarrow> split sep (a @ sep # r) = a # split sep r"
  by (induction a) auto

lemma split_campaign:
  "split colon (js ''campaign:'' @ rest) = js ''campaign'' # split colon rest"
  using split_append [of colon "js ''campaign''" rest] by (simp add: js_def colon_def)

lemma at_index_split:
  "at_index (split colon (js ''campaign:'' @ rest)) (Suc 0)
     = JStr (takeWhile (\<lambda>c. c \<noteq> colon) rest)"
proof -
  obtain more where "split colon rest = takeWhile (\<lambda>c. c \<noteq> colon) rest # more"
    using split_takeWhile [of colon rest] by auto
  then show ?thesis by (simp add: split_campaign at_index_def)
qed

lemma startsWith_iff: "startsWith s p \<longleftrightarrow> (\<exists>rest. s = p @ rest)"
proof
  assume "startsWith s p"
  then have "s = p @ drop (length p) s"
    unfolding startsWith_def by (metis append_take_drop_id)
  then show "\<exists>rest. s = p @ rest" ..
next
  assume "\<exists>rest. s = p @ rest"
  then show "startsWith s p" by (auto simp: startsWith_def)
qed

lemma extract_campaign:
  "extractCampaignId (JStr (js ''campaign:'' @ rest)) = JStr (takeWhile (\<lambda>c. c \<noteq> colon) rest)"
proof -
  have "startsWith (js ''campaign:'' @ rest) (js ''campaign:'')"
    by (simp add: startsWith_def)
  then show ?thesis
    unfolding extractCampaignId_def by (simp add: at_index_split del: append.simps)
qed

lemma extract_other:
  "\<forall>rest. tag \<noteq> JStr (js ''campaign:'' @ rest) \<Longrightarrow> extractCampaignId tag = JNull"
proof (cases tag)
  case (JStr s)
  assume "\<forall>rest. tag \<noteq> JStr (js ''campaign:'' @ rest)"
  with JStr have "\<not> startsWith s (js ''campaign:'')" by (auto simp: startsWith_iff)
  with JStr show ?thesis by (simp add: extractCampaignId_def)
qed (simp_all add: extractCampaignId_def)

lemma extract_null_or_string: "extractCampaignId tag = JNull \<or> (\<exists>s. extractCampaignId tag = JStr s)"
proof (cases "\<exists>rest. tag = JStr (js ''campaign:'' @ rest)")
  case True
  then show ?thesis using extract_campaign by auto
next
  case False
  then show ?thesis using extract_other by auto
qed

section \<open>The classifier\<close>

lemma detect_eq:
  "detectVenmailWebhookKind p = Inr
     (if \<not> truthy p then only_kind Unknown
      else if is_string (field p (js ''event_type'')) then only_kind Integration
      else if truthy (field p (js ''form_id'')) \<and> truthy (field p (js ''events'')) then only_kind Form
      else if truthy (field p (js ''original_message'')) \<and> truthy (field p (js ''bounce''))
        then campaign_kind Bounce (extractCampaignId (field (field p (js ''original_message'')) (js ''tag'')))
      else if truthy (field p (js ''status'')) \<and> truthy (field p (js ''message''))
        then campaign_kind Status (extractCampaignId (field (field p (js ''message'')) (js ''tag'')))
      else if truthy (field p (js ''rcpt_to'')) \<and> truthy (field p (js ''message_id'')) then only_kind Mail
      else only_kind Unknown)"
  by (simp add: detectVenmailWebhookKind_def member_truthy both_truthy_eq opt_member_field)

lemma detected_kind_eq:
  "detected_kind p = Some
     (if \<not> truthy p then Unknown
      else if is_string (field p (js ''event_type'')) then Integration
      else if truthy (field p (js ''form_id'')) \<and> truthy (field p (js ''events'')) then Form
      else if truthy (field p (js ''original_message'')) \<and> truthy (field p (js ''bounce'')) then Bounce
      else if truthy (field p (js ''status'')) \<and> truthy (field p (js ''message'')) then Status
      else if truthy (field p (js ''rcpt_to'')) \<and> truthy (field p (js ''message_id'')) then Mail
      else Unknown)"
  by (simp add: detected_kind_def detect_eq only_kind_def campaign_kind_def)

lemma guards_eq:
  "isBouncePayload p = Inr (truthy p \<and> truthy (field p (js ''original_message'')) \<and> truthy (field p (js ''bounce'')))"
  "isStatusPayload p = Inr (truthy p \<and> truthy (field p (js ''status'')) \<and> truthy (field p (js ''message'')))"
  "isMailWebhookPayload p = Inr (truthy p \<and> truthy (field p (js ''message_id'')) \<and> truthy (field p (js ''rcpt_to'')))"
  by (simp_all add: isBouncePayload_def isStatusPayload_def isMailWebhookPayload_def has_both_eq)

lemma first_match_eq:
  "first_match p =
     (if integration_shape p then Integration
      else if form_shape p then Form
      else if isBouncePayload p = Inr True then Bounce
      else if isStatusPayload p = Inr True then Status
      else if isMailWebhookPayload p = Inr True then Mail
      else Unknown)"
  by (simp add: first_match_def shapes_def)

lemma field_falsy: "\<not> truthy p \<Longrightarrow> field p k = JUndefined"
  by (cases p) (auto simp: field_def split: number.splits)

text \<open>
  C2. The kind the classifier returns is the kind of the first shape, in the order
  Integration, Form, Bounce, Status, Mail, that the payload has, and Unknown if it has
  none; so a payload with a string \<^verbatim>\<open>event_type\<close> and truthy \<^verbatim>\<open>rcpt_to\<close> and
  \<^verbatim>\<open>message_id\<close>, which the Mail guard accepts, is classified as Integration.
\<close>

theorem classification_is_first_match:
  "detected_kind p = Some (first_match p)
   \<and> (is_string (field p (js ''event_type'')) \<longrightarrow> truthy (field p (js ''rcpt_to'')) \<longrightarrow>
        truthy (field p (js ''message_id'')) \<longrightarrow>
        isMailWebhookPayload p = Inr True \<and> detected_kind p = Some Integration)"
proof -
  have first: "detected_kind p = Some (first_match p)"
    by (auto simp: detected_kind_eq first_match_eq guards_eq integration_shape_def form_shape_def)
  have "truthy p" if "is_string (field p (js ''event_type''))"
    using that by (cases "truthy p") (auto simp: field_falsy)
  then show ?thesis
    using first by (auto simp: detected_kind_eq guards_eq)
qed


theorem classification_is_first_match_witness:
  "is_string (field (JObj [(js ''event_type'', JStr (js ''MailReceived'')), (js ''rcpt_to'', JStr (js ''a@b.com'')),
                            (js ''message_id'', JStr (js ''m1''))]) (js ''event_type''))
   \<and> truthy (field (JObj [(js ''event_type'', JStr (js ''MailReceived'')), (js ''rcpt_to'', JStr (js ''a@b.com'')),
                          (js ''message_id'', JStr (js ''m1''))]) (js ''rcpt_to''))
   \<and> truthy (field (JObj [(js ''event_type'', JStr (js ''MailReceived'')), (js ''rcpt_to'', JStr (js ''a@b.com'')),
                          (js ''message_id'', JStr (js ''m1''))]) (js ''message_id''))
   \<and> isMailWebhookPayload (JObj [(js ''event_type'', JStr (js ''MailReceived'')), (js ''rcpt_to'', JStr (js ''a@b.com'')),
                          (js ''message_id'', JStr (js ''m1''))]) = Inr True
   \<and> detected_kind (JObj [(js ''event_type'', JStr (js ''MailReceived'')), (js ''rcpt_to'', JStr (js ''a@b.com'')),
                          (js ''message_id'', JStr (js ''m1''))]) = Some Integration
   \<and> first_match (JObj [(js ''rcpt_to'', JStr (js ''a@b.com'')), (js ''message_id'', JStr (js ''m1''))]) = Mail
   \<and> detected_kind (JObj [(js ''rcpt_to'', JStr (js ''a@b.com'')), (js ''message_id'', JStr (js ''m1''))]) = Some Mail"
  using classification_is_first_match
          [of "JObj [(js ''event_type'', JStr (js ''MailReceived'')), (js ''rcpt_to'', JStr (js ''a@b.com'')),
                     (js ''message_id'', JStr (js ''m1''))]"]
        classification_is_first_match
          [of "JObj [(js ''rcpt_to'', JStr (js ''a@b.com'')), (js ''message_id'', JStr (js ''m1''))]"]
  by (simp add: field_JObj first_match_eq guards_eq integration_shape_def form_shape_def)

text \<open>
  C7, as the specification states it, fails: the id is not all that follows the first
  colon. The tag \<^verbatim>\<open>campaign:a:b\<close> gives \<^verbatim>\<open>a\<close>.
\<close>

theorem campaign_id_stops_at_second_colon:
  "extractCampaignId (JStr (js ''campaign:a:b'')) = JStr (js ''a'')
   \<and> extractCampaignId (JStr (js ''campaign:a:b'')) \<noteq> JStr (js ''a:b'')"
  using extract_campaign [of "js ''a:b''"] by (simp add: js_append takeWhile_js)

lemma detect_campaign:
  assumes "detectVenmailWebhookKind p = Inr r"
  shows "kind r = Bounce \<Longrightarrow>
           campaignId r = Some (extractCampaignId (field (field p (js ''original_message'')) (js ''tag'')))
           \<and> isCampaignEvent r
               = Some (truthy (extractCampaignId (field (field p (js ''original_message'')) (js ''tag''))))"
    and "kind r = Status \<Longrightarrow>
           campaignId r = Some (extractCampaignId (field (field p (js ''message'')) (js ''tag'')))
           \<and> isCampaignEvent r
               = Some (truthy (extractCampaignId (field (field p (js ''message'')) (js ''tag''))))"
  using assms
  by (auto simp: detect_eq only_kind_def campaign_kind_def split: if_splits)

lemma normalize_eq:
  "normalizeDeliveryEvent p = Inr
     (if truthy p \<and> truthy (field p (js ''original_message'')) \<and> truthy (field p (js ''bounce'')) then
        \<lparr>messageId = field (field p (js ''original_message'')) (js ''message_id''),
         recipient = field (field p (js ''original_message'')) (js ''to''),
         status = JStr (js ''MessageBounced''),
         campaign = extractCampaignId (field (field p (js ''original_message'')) (js ''tag'')),
         payload = p\<rparr>
      else if truthy p \<and> truthy (field p (js ''status'')) \<and> truthy (field p (js ''message'')) then
        \<lparr>messageId = field (field p (js ''message'')) (js ''message_id''),
         recipient = field (field p (js ''message'')) (js ''to''),
         status = field p (js ''status''),
         campaign = extractCampaignId (field (field p (js ''message'')) (js ''tag'')),
         payload = p\<rparr>
      else
        \<lparr>messageId = JUndefined, recipient = JUndefined, status = JStr (js ''Unknown''),
         campaign = JNull, payload = p\<rparr>)"
proof -
  have n: "nullish v d = v" if "truthy v" for v d
    using that by (cases v) auto
  show ?thesis
    by (auto simp: normalizeDeliveryEvent_def guards_eq member_truthy opt_member_field n Let_def)
qed


text \<open>
  C3. The normalizer never throws, and neither do the two guards it asks. A payload with
  the Bounce shape, whether or not it has the Status shape too, gives the status
  \<^verbatim>\<open>MessageBounced\<close> and the fields of \<^verbatim>\<open>original_message\<close>; one with the Status
  shape only gives its own \<^verbatim>\<open>status\<close> and the fields of \<^verbatim>\<open>message\<close>; any other
  input gives the status \<^verbatim>\<open>Unknown\<close>, no message id, no recipient and the campaign id
  \<^verbatim>\<open>null\<close>.
\<close>

theorem normalize_bounce_then_status:
  "\<exists>r. normalizeDeliveryEvent p = Inr r \<and> payload r = p
     \<and> (isBouncePayload p = Inr True \<longrightarrow>
          status r = JStr (js ''MessageBounced'')
          \<and> messageId r = field (field p (js ''original_message'')) (js ''message_id'')
          \<and> recipient r = field (field p (js ''original_message'')) (js ''to'')
          \<and> campaign r = extractCampaignId (field (field p (js ''original_message'')) (js ''tag'')))
     \<and> (isBouncePayload p = Inr False \<longrightarrow> isStatusPayload p = Inr True \<longrightarrow>
          status r = field p (js ''status'')
          \<and> messageId r = field (field p (js ''message'')) (js ''message_id'')
          \<and> recipient r = field (field p (js ''message'')) (js ''to'')
          \<and> campaign r = extractCampaignId (field (field p (js ''message'')) (js ''tag'')))
     \<and> (isBouncePayload p = Inr False \<longrightarrow> isStatusPayload p = Inr False \<longrightarrow>
          status r = JStr (js ''Unknown'') \<and> messageId r = JUndefined \<and> recipient r = JUndefined
          \<and> campaign r = JNull)
     \<and> (\<exists>b. isBouncePayload p = Inr b) \<and> (\<exists>b. isStatusPayload p = Inr b)"
  by (auto simp: normalize_eq guards_eq)

lemma extract_456: "extractCampaignId (JStr (js ''campaign:456'')) = JStr (js ''456'')"
  using extract_campaign [of "js ''456''"] by (simp add: js_append takeWhile_js)

lemma extract_123: "extractCampaignId (JStr (js ''campaign:123'')) = JStr (js ''123'')"
  using extract_campaign [of "js ''123''"] by (simp add: js_append takeWhile_js)

theorem normalize_bounce_then_status_witness:
  "isBouncePayload bounce_status_payload = Inr True \<and> isStatusPayload bounce_status_payload = Inr True
   \<and> normalizeDeliveryEvent bounce_status_payload
       = Inr \<lparr>messageId = JStr (js ''m0''), recipient = JStr (js ''c@d.com''),
              status = JStr (js ''MessageBounced''), campaign = JStr (js ''456''), payload = bounce_status_payload\<rparr>
   \<and> isBouncePayload status_payload = Inr False \<and> isStatusPayload status_payload = Inr True
   \<and> normalizeDeliveryEvent status_payload
       = Inr \<lparr>messageId = JStr (js ''test-id''), recipient = JStr (js ''test@example.com''),
              status = JStr (js ''MessageDelivered''), campaign = JStr (js ''123''), payload = status_payload\<rparr>
   \<and> isBouncePayload (JNum (Finite 5)) = Inr False \<and> isStatusPayload (JNum (Finite 5)) = Inr False
   \<and> normalizeDeliveryEvent (JNum (Finite 5))
       = Inr \<lparr>messageId = JUndefined, recipient = JUndefined, status = JStr (js ''Unknown''),
              campaign = JNull, payload = JNum (Finite 5)\<rparr>"
proof -
  have b: "isBouncePayload bounce_status_payload = Inr True" "isStatusPayload bounce_status_payload = Inr True"
    "isBouncePayload status_payload = Inr False" "isStatusPayload status_payload = Inr True"
    "isBouncePayload (JNum (Finite 5)) = Inr False" "isStatusPayload (JNum (Finite 5)) = Inr False"
    by (simp_all add: guards_eq bounce_status_payload_def status_payload_def field_JObj field_def)
  have f: "field (field bounce_status_payload (js ''original_message'')) (js ''message_id'') = JStr (js ''m0'')"
    "field (field bounce_status_payload (js ''original_message'')) (js ''to'') = JStr (js ''c@d.com'')"
    "field (field bounce_status_payload (js ''original_message'')) (js ''tag'') = JStr (js ''campaign:456'')"
    "field (field status_payload (js ''message'')) (js ''message_id'') = JStr (js ''test-id'')"
    "field (field status_payload (js ''message'')) (js ''to'') = JStr (js ''test@example.com'')"
    "field (field status_payload (js ''message'')) (js ''tag'') = JStr (js ''campaign:123'')"
    "field status_payload (js ''status'') = JStr (js ''MessageDelivered'')"
    by (simp_all add: bounce_status_payload_def status_payload_def field_JObj)
  obtain r1 where r1: "normalizeDeliveryEvent bounce_status_payload = Inr r1" "payload r1 = bounce_status_payload"
    "status r1 = JStr (js ''MessageBounced'')" "messageId r1 = JStr (js ''m0'')"
    "recipient r1 = JStr (js ''c@d.com'')" "campaign r1 = JStr (js ''456'')"
    using normalize_bounce_then_status [of bounce_status_payload] b by (auto simp: f extract_456)
  obtain r2 where r2: "normalizeDeliveryEvent status_payload = Inr r2" "payload r2 = status_payload"
    "status r2 = JStr (js ''MessageDelivered'')" "messageId r2 = JStr (js ''test-id'')"
    "recipient r2 = JStr (js ''test@example.com'')" "campaign r2 = JStr (js ''123'')"
    using normalize_bounce_then_status [of status_payload] b by (auto simp: f extract_123)
  obtain r3 where r3: "normalizeDeliveryEvent (JNum (Finite 5)) = Inr r3" "payload r3 = JNum (Finite 5)"
    "status r3 = JStr (js ''Unknown'')" "messageId r3 = JUndefined"
    "recipient r3 = JUndefined" "campaign r3 = JNull"
    using normalize_bounce_then_status [of "JNum (Finite 5)"] b by auto
  show ?thesis using b r1 r2 r3 by simp
qed


text \<open>
  C7, amended. For a tag \<^verbatim>\<open>"campaign:" + rest\<close> the campaign id is the part of
  \<^verbatim>\<open>rest\<close> in front of its first colon, all of \<^verbatim>\<open>rest\<close> if it has none (what
  \<^verbatim>\<open>tag.split(":")[1]\<close> is); for any other tag, a value that is no string and an absent
  tag it is \<^verbatim>\<open>null\<close>. This is the id the classifier returns for a Bounce or Status
  payload and the normalizer for a payload with the Bounce or Status shape, read from the
  tag of \<^verbatim>\<open>original_message\<close> or \<^verbatim>\<open>message\<close>.
\<close>

theorem campaign_id_of_tag:
  "extractCampaignId (JStr (js ''campaign:'' @ rest)) = JStr (takeWhile (\<lambda>c. c \<noteq> colon) rest)
   \<and> ((\<forall>rest. tag \<noteq> JStr (js ''campaign:'' @ rest)) \<longrightarrow> extractCampaignId tag = JNull)
   \<and> (detectVenmailWebhookKind p = Inr r \<longrightarrow> kind r = Bounce \<longrightarrow>
        campaignId r = Some (extractCampaignId (field (field p (js ''original_message'')) (js ''tag''))))
   \<and> (detectVenmailWebhookKind p = Inr r \<longrightarrow> kind r = Status \<longrightarrow>
        campaignId r = Some (extractCampaignId (field (field p (js ''message'')) (js ''tag''))))
   \<and> (normalizeDeliveryEvent p = Inr n \<longrightarrow> isBouncePayload p = Inr True \<longrightarrow>
        campaign n = extractCampaignId (field (field p (js ''original_message'')) (js ''tag'')))
   \<and> (normalizeDeliveryEvent p = Inr n \<longrightarrow> isBouncePayload p = Inr False \<longrightarrow>
        isStatusPayload p = Inr True \<longrightarrow>
        campaign n = extractCampaignId (field (field p (js ''message'')) (js ''tag'')))"
proof -
  have "campaign n = extractCampaignId (field (field p (js ''original_message'')) (js ''tag''))"
    if "normalizeDeliveryEvent p = Inr n" "isBouncePayload p = Inr True"
    using that by (auto simp: normalize_eq guards_eq split: if_splits)
  moreover have "campaign n = extractCampaignId (field (field p (js ''message'')) (js ''tag''))"
    if "normalizeDeliveryEvent p = Inr n" "isBouncePayload p = Inr False"
       "isStatusPayload p = Inr True"
    using that by (auto simp: normalize_eq guards_eq split: if_splits)
  ultimately show ?thesis
    using extract_campaign [of rest] extract_other [of tag] detect_campaign [of p r]
    by blast
qed


lemma detect_status_payload:
  "detectVenmailWebhookKind status_payload
     = Inr \<lparr>kind = Status, isCampaignEvent = Some True, campaignId = Some (JStr (js ''123''))\<rparr>"
  by (simp add: detect_eq status_payload_def field_JObj campaign_kind_def extract_123)

theorem campaign_id_of_tag_witness:
  "extractCampaignId (JStr (js ''campaign:123'')) = JStr (js ''123'')
   \<and> extractCampaignId (JStr (js ''campaign:a:b'')) = JStr (js ''a'')
   \<and> extractCampaignId (JStr (js ''campaign:'')) = JStr []
   \<and> (\<forall>rest. JStr (js ''newsletter'') \<noteq> JStr (js ''campaign:'' @ rest))
   \<and> extractCampaignId (JStr (js ''newsletter'')) = JNull
   \<and> (\<forall>rest. JUndefined \<noteq> JStr (js ''campaign:'' @ rest))
   \<and> extractCampaignId JUndefined = JNull
   \<and> detectVenmailWebhookKind status_payload
       = Inr \<lparr>kind = Status, isCampaignEvent = Some True, campaignId = Some (JStr (js ''123''))\<rparr>
   \<and> field (field status_payload (js ''message'')) (js ''tag'') = JStr (js ''campaign:123'')"
proof -
  have f: "field (field status_payload (js ''message'')) (js ''tag'') = JStr (js ''campaign:123'')"
    by (simp add: status_payload_def field_JObj)
  have n: "\<forall>rest. JStr (js ''newsletter'') \<noteq> JStr (js ''campaign:'' @ rest)"
    by (simp add: js_def)
  show ?thesis
    using campaign_id_of_tag [of "js ''123''" "JStr (js ''newsletter'')"]
          campaign_id_of_tag [of "js ''a:b''" JUndefined]
          campaign_id_of_tag [of "[]" JUndefined]
          f detect_status_payload n
    by (simp add: js_append takeWhile_js)
qed

lemma extract_empty: "extractCampaignId (JStr (js ''campaign:'')) = JStr []"
  using extract_campaign [of "[]"] by simp

text \<open>
  C8, as the specification states it, fails: for the tag \<^verbatim>\<open>campaign:\<close> the id is the
  empty string, which is not \<^verbatim>\<open>null\<close>, and \<^verbatim>\<open>isCampaignEvent\<close> is \<^verbatim>\<open>false\<close>.
\<close>

theorem campaign_event_false_with_id:
  "detectVenmailWebhookKind empty_id_payload
     = Inr \<lparr>kind = Status, isCampaignEvent = Some False, campaignId = Some (JStr [])\<rparr>
   \<and> JStr [] \<noteq> JNull"
  by (simp add: detect_eq empty_id_payload_def field_JObj campaign_kind_def extract_empty)

text \<open>
  C8, amended. For a payload classified as Bounce or Status, \<^verbatim>\<open>campaignId\<close> is
  \<^verbatim>\<open>null\<close> or a string, and \<^verbatim>\<open>isCampaignEvent\<close> is \<^verbatim>\<open>true\<close> if and only if
  \<^verbatim>\<open>campaignId\<close> is a string that is not empty.
\<close>

theorem campaign_event_iff_nonempty_id:
  "detectVenmailWebhookKind p = Inr r \<Longrightarrow> kind r = Bounce \<or> kind r = Status \<Longrightarrow>
   \<exists>c. campaignId r = Some c \<and> (c = JNull \<or> (\<exists>s. c = JStr s))
       \<and> isCampaignEvent r = Some (c \<noteq> JNull \<and> c \<noteq> JStr [])"
proof -
  assume d: "detectVenmailWebhookKind p = Inr r" and k: "kind r = Bounce \<or> kind r = Status"
  have t: "truthy c \<longleftrightarrow> c \<noteq> JNull \<and> c \<noteq> JStr []" if "c = JNull \<or> (\<exists>s. c = JStr s)" for c
    using that by auto
  from d k obtain tag where "campaignId r = Some (extractCampaignId tag)"
    "isCampaignEvent r = Some (truthy (extractCampaignId tag))"
    using detect_campaign [OF d] by auto
  then show ?thesis
    using extract_null_or_string [of tag] t [of "extractCampaignId tag"] by auto
qed

theorem campaign_event_iff_nonempty_id_witness:
  "detectVenmailWebhookKind status_payload
     = Inr \<lparr>kind = Status, isCampaignEvent = Some True, campaignId = Some (JStr (js ''123''))\<rparr>
   \<and> (kind \<lparr>kind = Status, isCampaignEvent = Some True, campaignId = Some (JStr (js ''123''))\<rparr> = Bounce
      \<or> kind \<lparr>kind = Status, isCampaignEvent = Some True, campaignId = Some (JStr (js ''123''))\<rparr> = Status)
   \<and> JStr (js ''123'') \<noteq> JNull \<and> JStr (js ''123'') \<noteq> JStr []
   \<and> detectVenmailWebhookKind empty_id_payload
     = Inr \<lparr>kind = Status, isCampaignEvent = Some False, campaignId = Some (JStr [])\<rparr>"
proof -
  have e: "detectVenmailWebhookKind empty_id_payload
     = Inr \<lparr>kind = Status, isCampaignEvent = Some False, campaignId = Some (JStr [])\<rparr>"
    by (simp add: detect_eq empty_id_payload_def field_JObj campaign_kind_def extract_empty)
  show ?thesis
    using campaign_event_iff_nonempty_id [OF detect_status_payload]
          campaign_event_iff_nonempty_id [OF e]
          detect_status_payload e
    by simp
qed


lemma field_delete_other:
  "k' \<noteq> k \<Longrightarrow> field (JObj (AList.delete k kvs)) k' = field (JObj kvs) k'"
  by (simp add: field_JObj delete_conv)

lemma field_delete_same: "field (JObj (AList.delete k kvs)) k = JUndefined"
  by (simp add: field_JObj delete_conv)

lemma truthy_field_delete:
  "\<not> truthy (field (JObj kvs) k) \<Longrightarrow>
   truthy (field (JObj (AList.delete k kvs)) k') = truthy (field (JObj kvs) k')"
  by (cases "k' = k") (simp_all add: field_delete_other field_delete_same)

lemma field_delete_truthy:
  "\<not> truthy (field (JObj kvs) k) \<Longrightarrow> truthy (field (JObj kvs) k') \<Longrightarrow>
   field (JObj (AList.delete k kvs)) k' = field (JObj kvs) k'"
  by (cases "k' = k") (simp_all add: field_delete_other)

lemma detect_delete:
  assumes "\<not> truthy (field (JObj kvs) k)" and "k \<noteq> js ''event_type''"
  shows "detectVenmailWebhookKind (JObj (AList.delete k kvs)) = detectVenmailWebhookKind (JObj kvs)"
  using assms
  by (simp add: detect_eq truthy_field_delete field_delete_truthy field_delete_other cong: if_cong)

lemma guards_delete:
  assumes "\<not> truthy (field (JObj kvs) k)"
  shows "isMailWebhookPayload (JObj (AList.delete k kvs)) = isMailWebhookPayload (JObj kvs)"
    and "isStatusPayload (JObj (AList.delete k kvs)) = isStatusPayload (JObj kvs)"
    and "isBouncePayload (JObj (AList.delete k kvs)) = isBouncePayload (JObj kvs)"
  using assms by (simp_all add: guards_eq truthy_field_delete)

text \<open>
  C10, as stated for every required field, fails for \<^verbatim>\<open>event_type\<close>, which the
  classifier tests by type: with the empty string, which is falsy, the payload is an
  Integration event, and without the field it is Unknown.
\<close>

theorem empty_event_type_is_integration:
  "\<not> truthy (JStr [])
   \<and> detected_kind (JObj [(js ''event_type'', JStr [])]) = Some Integration
   \<and> detected_kind (JObj (AList.delete (js ''event_type'') [(js ''event_type'', JStr [])])) = Some Unknown"
  by (simp add: detected_kind_eq field_JObj)

text \<open>
  Nor is the kind of such a payload always a later one: with an empty \<^verbatim>\<open>status\<close>, and
  a truthy \<^verbatim>\<open>form_id\<close> and \<^verbatim>\<open>events\<close>, the payload is a Form event, which comes
  before Status in the order.
\<close>

lemma falsy_status_is_form:
  "map_of falsy_status_form (js ''status'') = Some (JStr [])
   \<and> detected_kind (JObj falsy_status_form) = Some Form
   \<and> isStatusPayload (JObj falsy_status_form) = Inr False"
  by (simp add: detected_kind_eq guards_eq field_JObj falsy_status_form_def)

text \<open>
  C10, amended. A field of an object payload other than \<^verbatim>\<open>event_type\<close> that is present
  and falsy counts as absent: the classifier and the three guards give what they give for
  the payload without the field. So a payload with such a \<^verbatim>\<open>status\<close> or
  \<^verbatim>\<open>message\<close> is refused by the Status guard and not classified as Status, and
  likewise for the fields of the Bounce, Mail and Form shapes; what it is classified as is
  decided by the shapes it has without the field, earlier or later in the order. A payload
  whose \<^verbatim>\<open>event_type\<close> is a string, the empty one included, is an Integration event.
\<close>

theorem falsy_field_is_absent:
  "map_of kvs k = Some v \<Longrightarrow> \<not> truthy v \<Longrightarrow> k \<noteq> js ''event_type'' \<Longrightarrow>
     detectVenmailWebhookKind (JObj kvs) = detectVenmailWebhookKind (JObj (AList.delete k kvs))
   \<and> isMailWebhookPayload (JObj kvs) = isMailWebhookPayload (JObj (AList.delete k kvs))
   \<and> isStatusPayload (JObj kvs) = isStatusPayload (JObj (AList.delete k kvs))
   \<and> isBouncePayload (JObj kvs) = isBouncePayload (JObj (AList.delete k kvs))
   \<and> (k = js ''status'' \<or> k = js ''message'' \<longrightarrow>
        isStatusPayload (JObj kvs) = Inr False \<and> detected_kind (JObj kvs) \<noteq> Some Status)
   \<and> (k = js ''original_message'' \<or> k = js ''bounce'' \<longrightarrow>
        isBouncePayload (JObj kvs) = Inr False \<and> detected_kind (JObj kvs) \<noteq> Some Bounce)
   \<and> (k = js ''message_id'' \<or> k = js ''rcpt_to'' \<longrightarrow>
        isMailWebhookPayload (JObj kvs) = Inr False \<and> detected_kind (JObj kvs) \<noteq> Some Mail)
   \<and> (k = js ''form_id'' \<or> k = js ''events'' \<longrightarrow> detected_kind (JObj kvs) \<noteq> Some Form)
   \<and> (map_of kvs (js ''event_type'') = Some (JStr s) \<longrightarrow> detected_kind (JObj kvs) = Some Integration)"
proof -
  assume v: "map_of kvs k = Some v" "\<not> truthy v" and k: "k \<noteq> js ''event_type''"
  then have falsy: "\<not> truthy (field (JObj kvs) k)"
    by (simp add: field_JObj)
  have same: "detectVenmailWebhookKind (JObj kvs) = detectVenmailWebhookKind (JObj (AList.delete k kvs))"
    "isMailWebhookPayload (JObj kvs) = isMailWebhookPayload (JObj (AList.delete k kvs))"
    "isStatusPayload (JObj kvs) = isStatusPayload (JObj (AList.delete k kvs))"
    "isBouncePayload (JObj kvs) = isBouncePayload (JObj (AList.delete k kvs))"
    using detect_delete [OF falsy k] guards_delete [OF falsy] by simp_all
  have later:
    "k = js ''status'' \<or> k = js ''message'' \<longrightarrow>
       isStatusPayload (JObj kvs) = Inr False \<and> detected_kind (JObj kvs) \<noteq> Some Status"
    "k = js ''original_message'' \<or> k = js ''bounce'' \<longrightarrow>
       isBouncePayload (JObj kvs) = Inr False \<and> detected_kind (JObj kvs) \<noteq> Some Bounce"
    "k = js ''message_id'' \<or> k = js ''rcpt_to'' \<longrightarrow>
       isMailWebhookPayload (JObj kvs) = Inr False \<and> detected_kind (JObj kvs) \<noteq> Some Mail"
    "k = js ''form_id'' \<or> k = js ''events'' \<longrightarrow> detected_kind (JObj kvs) \<noteq> Some Form"
    using falsy by (auto simp: guards_eq detected_kind_eq)
  have typed: "map_of kvs (js ''event_type'') = Some (JStr s) \<longrightarrow>
      detected_kind (JObj kvs) = Some Integration"
    by (simp add: detected_kind_eq field_JObj)
  from same later typed show ?thesis by blast
qed

theorem falsy_field_is_absent_witness:
  "map_of falsy_status (js ''status'') = Some (JStr []) \<and> \<not> truthy (JStr [])
   \<and> js ''status'' \<noteq> js ''event_type''
   \<and> isStatusPayload (JObj falsy_status) = Inr False
   \<and> detected_kind (JObj falsy_status) = Some Mail
   \<and> detectVenmailWebhookKind (JObj falsy_status)
       = detectVenmailWebhookKind (JObj (AList.delete (js ''status'') falsy_status))
   \<and> map_of falsy_message_id (js ''message_id'') = Some (JStr [])
   \<and> js ''message_id'' \<noteq> js ''event_type''
   \<and> isMailWebhookPayload (JObj falsy_message_id) = Inr False
   \<and> detected_kind (JObj falsy_message_id) = Some Unknown
   \<and> map_of falsy_status_form (js ''status'') = Some (JStr [])
   \<and> isStatusPayload (JObj falsy_status_form) = Inr False
   \<and> detected_kind (JObj falsy_status_form) = Some Form
   \<and> detected_kind (JObj (AList.delete (js ''status'') falsy_status_form)) = Some Form"
proof -
  have m: "map_of falsy_status (js ''status'') = Some (JStr [])"
    "map_of falsy_message_id (js ''message_id'') = Some (JStr [])"
    "map_of falsy_status_form (js ''status'') = Some (JStr [])"
    by (simp_all add: falsy_status_def falsy_message_id_def falsy_status_form_def)
  have k: "detected_kind (JObj falsy_status) = Some Mail"
    "detected_kind (JObj falsy_message_id) = Some Unknown"
    "detected_kind (JObj falsy_status_form) = Some Form"
    by (simp_all add: detected_kind_eq field_JObj falsy_status_def falsy_message_id_def
          falsy_status_form_def)
  have f: "\<not> truthy (JStr [])" "js ''status'' \<noteq> js ''event_type''"
    "js ''message_id'' \<noteq> js ''event_type''"
    by simp_all
  have s: "isStatusPayload (JObj falsy_status) = Inr False"
    and d: "detectVenmailWebhookKind (JObj falsy_status)
       = detectVenmailWebhookKind (JObj (AList.delete (js ''status'') falsy_status))"
    using falsy_field_is_absent [OF m(1) f(1) f(2)] by blast+
  have i: "isMailWebhookPayload (JObj falsy_message_id) = Inr False"
    using falsy_field_is_absent [OF m(2) f(1) f(3)] by blast
  have t: "isStatusPayload (JObj falsy_status_form) = Inr False"
    and e: "detectVenmailWebhookKind (JObj falsy_status_form)
       = detectVenmailWebhookKind (JObj (AList.delete (js ''status'') falsy_status_form))"
    using falsy_field_is_absent [OF m(3) f(1) f(2)] by blast+
  have g: "detected_kind (JObj (AList.delete (js ''status'') falsy_status_form)) = Some Form"
    using k(3) by (simp add: detected_kind_def e)
  show ?thesis
    using m k f s i t g by (simp only: d [symmetric]) simp
qed

end
